theory Spec2Isabelle
  imports
    Main
    "HOL-Library.Multiset"
    "HOL-Library.Sublist"
    "HOL-Library.Char_ord"
    "HOL-Library.List_Lexorder"
    "HOL-Library.Product_Lexorder"
begin

section \<open>Go strings\<close>

text \<open>
  A Go string is a sequence of bytes: \<^typ>\<open>string\<close>, with \<^const>\<open>length\<close> for \<open>len\<close>.
  The order \<open><\<close> on strings is the bytewise lexicographic one, as Go compares strings.
  The functions of package \<open>strings\<close> that the sources call are written out for the
  byte strings the program handles; where Go decodes UTF-8 (\<open>ToLower\<close>, \<open>TrimSpace\<close>,
  \<open>Fields\<close>) the model is the one of ASCII text.
\<close>

definition HasPrefix :: "string \<Rightarrow> string \<Rightarrow> bool" where
  "HasPrefix s p = prefix p s"

fun Contains :: "string \<Rightarrow> string \<Rightarrow> bool" where
  "Contains [] sub = (sub = [])"
| "Contains (c # cs) sub = (prefix sub (c # cs) \<or> Contains cs sub)"

definition lower_byte :: "char \<Rightarrow> char" where
  "lower_byte c =
     (if (65::nat) \<le> of_char c \<and> of_char c \<le> (90::nat) then char_of (of_char c + (32::nat)) else c)"

definition ToLower :: "string \<Rightarrow> string" where
  "ToLower s = map lower_byte s"

definition isSpace :: "char \<Rightarrow> bool" where
  "isSpace c = (c \<in> set [CHR 0x09, CHR 0x0A, CHR 0x0B, CHR 0x0C, CHR 0x0D, CHR 0x20])"

definition TrimSpace :: "string \<Rightarrow> string" where
  "TrimSpace s = rev (dropWhile isSpace (rev (dropWhile isSpace s)))"

text \<open>\<open>strings.Split(s, sep)\<close> for a one-byte separator: the empty string gives one empty piece.\<close>

fun Split :: "string \<Rightarrow> char \<Rightarrow> string list" where
  "Split [] sep = [[]]"
| "Split (c # cs) sep =
     (if c = sep then [] # Split cs sep
      else (case Split cs sep of [] \<Rightarrow> [[c]] | w # ws \<Rightarrow> (c # w) # ws))"

text \<open>\<open>strings.Fields\<close>: the maximal runs of non-space bytes; \<open>cur\<close> is the run being read, reversed.\<close>

fun Fields_from :: "string \<Rightarrow> string \<Rightarrow> string list" where
  "Fields_from [] cur = (if cur = [] then [] else [rev cur])"
| "Fields_from (c # cs) cur =
     (if isSpace c then (if cur = [] then Fields_from cs [] else rev cur # Fields_from cs [])
      else Fields_from cs (c # cur))"

definition Fields :: "string \<Rightarrow> string list" where
  "Fields s = Fields_from s []"

fun Join :: "string list \<Rightarrow> string \<Rightarrow> string" where
  "Join [] sep = []"
| "Join [e] sep = e"
| "Join (e # es) sep = e @ sep @ Join es sep"

text \<open>
  \<open>strings.Replace(s, old, new, n)\<close>: the first \<open>n\<close> non-overlapping occurrences of \<open>old\<close>,
  from the left, all of them when \<open>n < 0\<close>. The sources call it with a one-byte \<open>old\<close>;
  for the empty \<open>old\<close> (which Go matches between code points) the model returns \<open>s\<close>.
\<close>

function Replace :: "string \<Rightarrow> string \<Rightarrow> string \<Rightarrow> int \<Rightarrow> string" where
  "Replace [] old new n = []"
| "Replace (c # cs) old new n =
     (if n = 0 \<or> old = [] then c # cs
      else if prefix old (c # cs) then new @ Replace (drop (length old) (c # cs)) old new (n - 1)
      else c # Replace cs old new n)"
  by pat_completeness auto
termination
  by (relation "measure (\<lambda>(s, old, new, n). length s)") (auto simp: neq_Nil_conv)

definition ReplaceAll :: "string \<Rightarrow> string \<Rightarrow> string \<Rightarrow> string" where
  "ReplaceAll s old new = Replace s old new (- 1)"

section \<open>Transfer history (package history)\<close>

record PortForwardConfig =
  Type :: string
  LocalPort :: string
  RemoteHost :: string
  RemotePort :: string
  BindAddress :: string

text \<open>A \<open>time.Time\<close> is a point of a linear clock: an integer.\<close>

record TransferHistoryEntry =
  Direction :: string
  LocalPath :: string
  RemotePath :: string
  Timestamp :: int

record ConnectionInfo =
  HostName :: string
  LastConnect :: int
  ConnectCount :: int
  PortForwarding :: "PortForwardConfig option"
  TransferHistory :: "TransferHistoryEntry list"

text \<open>\<open>ConnectionHistory.Connections\<close>, a Go map from host names to \<open>ConnectionInfo\<close>.\<close>

type_synonym ConnectionHistory = "string \<rightharpoonup> ConnectionInfo"

record HistoryManager =
  historyPath :: string
  history :: ConnectionHistory

text \<open>
  \<open>RecordTransfer\<close> updates the history in memory and then returns what \<open>saveHistory\<close>
  returns. Writing the JSON file is the operating system's work: \<open>saveHistory\<close> is a
  parameter giving the error of the write, if any. \<open>now\<close> is the value of \<open>time.Now()\<close>.
\<close>

definition RecordTransfer ::
  "(HistoryManager \<Rightarrow> string option) \<Rightarrow> int \<Rightarrow> HistoryManager \<Rightarrow>
     string \<Rightarrow> string \<Rightarrow> string \<Rightarrow> string \<Rightarrow> HistoryManager \<times> string option" where
  "RecordTransfer saveHistory now hm hostName direction localPath remotePath =
     (let entry = \<lparr>Direction = direction, LocalPath = localPath, RemotePath = remotePath,
                    Timestamp = now\<rparr>;
          hm' =
            (case history hm hostName of
               Some conn \<Rightarrow>
                 (let conn1 = conn\<lparr>TransferHistory := entry # TransferHistory conn\<rparr>;
                      conn2 = (if length (TransferHistory conn1) > 10
                               then conn1\<lparr>TransferHistory := take 10 (TransferHistory conn1)\<rparr>
                               else conn1);
                      conn3 = conn2\<lparr>LastConnect := now\<rparr>
                  in hm\<lparr>history := (history hm)(hostName \<mapsto> conn3)\<rparr>)
             | None \<Rightarrow>
                 hm\<lparr>history := (history hm)(hostName \<mapsto>
                    \<lparr>HostName = hostName, LastConnect = now, ConnectCount = 0,
                     PortForwarding = None, TransferHistory = [entry]\<rparr>)\<rparr>)
      in (hm', saveHistory hm'))"

definition GetTransferHistory :: "HistoryManager \<Rightarrow> string \<Rightarrow> TransferHistoryEntry list" where
  "GetTransferHistory hm hostName =
     (case history hm hostName of Some conn \<Rightarrow> TransferHistory conn | None \<Rightarrow> [])"

text \<open>
  A transfer to record: the time of the call and the arguments of \<open>RecordTransfer\<close>.
  \<open>RecordTransfers\<close> makes the calls one after the other, as the wizard does after each
  successful transfer (it ignores the error of the write).
\<close>

record transfer_call =
  at :: int
  dir :: string
  local :: string
  remote :: string

definition entry_of :: "transfer_call \<Rightarrow> TransferHistoryEntry" where
  "entry_of t = \<lparr>Direction = dir t, LocalPath = local t, RemotePath = remote t, Timestamp = at t\<rparr>"

fun RecordTransfers ::
  "(HistoryManager \<Rightarrow> string option) \<Rightarrow> HistoryManager \<Rightarrow> string \<Rightarrow> transfer_call list \<Rightarrow>
     HistoryManager" where
  "RecordTransfers saveHistory hm hostName [] = hm"
| "RecordTransfers saveHistory hm hostName (t # ts) =
     RecordTransfers saveHistory
       (fst (RecordTransfer saveHistory (at t) hm hostName (dir t) (local t) (remote t)))
       hostName ts"

section \<open>Formatting and paths (packages fmt, strconv, path/filepath)\<close>

definition digit_char :: "nat \<Rightarrow> char" where
  "digit_char d = char_of (48 + d)"

function digits_of :: "nat \<Rightarrow> string" where
  "digits_of n = (if n < 10 then [digit_char n] else digits_of (n div 10) @ [digit_char (n mod 10)])"
  by pat_completeness auto
termination
  by (relation "measure (\<lambda>n. n)") auto

text \<open>The verb \<open>%d\<close> of \<open>fmt.Sprintf\<close> on an \<open>int\<close>.\<close>

definition Itoa :: "int \<Rightarrow> string" where
  "Itoa i = (if i < 0 then CHR ''-'' # digits_of (nat (- i)) else digits_of (nat i))"

definition hex_digit :: "nat \<Rightarrow> char" where
  "hex_digit d = ''0123456789abcdef'' ! d"

text \<open>
  The verb \<open>%q\<close> (\<open>strconv.Quote\<close>): a double-quoted Go literal. Control bytes are
  escaped; the bytes of printable text are copied.
\<close>

definition quote_byte :: "char \<Rightarrow> string" where
  "quote_byte c =
     (if c = CHR 0x22 then [CHR 0x5C, CHR 0x22]
      else if c = CHR 0x5C then [CHR 0x5C, CHR 0x5C]
      else if c = CHR 0x07 then [CHR 0x5C, CHR ''a'']
      else if c = CHR 0x08 then [CHR 0x5C, CHR ''b'']
      else if c = CHR 0x0C then [CHR 0x5C, CHR ''f'']
      else if c = CHR 0x0A then [CHR 0x5C, CHR ''n'']
      else if c = CHR 0x0D then [CHR 0x5C, CHR ''r'']
      else if c = CHR 0x09 then [CHR 0x5C, CHR ''t'']
      else if c = CHR 0x0B then [CHR 0x5C, CHR ''v'']
      else if of_char c < (32::nat) \<or> c = CHR 0x7F
        then [CHR 0x5C, CHR ''x'', hex_digit (of_char c div 16), hex_digit (of_char c mod 16)]
      else [c])"

definition Quote :: "string \<Rightarrow> string" where
  "Quote s = CHR 0x22 # concat (map quote_byte s) @ [CHR 0x22]"

definition isDigit :: "char \<Rightarrow> bool" where
  "isDigit c = ((48::nat) \<le> of_char c \<and> of_char c \<le> (57::nat))"

text \<open>
  \<open>fmt.Sscanf(field, "%d", &size)\<close> with \<open>size\<close> initially 0: an optional sign and the
  leading decimal digits; \<open>size\<close> stays 0 when there is no digit or the number does not fit
  an \<open>int64\<close>.
\<close>

definition Sscan_d :: "string \<Rightarrow> int" where
  "Sscan_d s =
     (let neg = (s \<noteq> [] \<and> hd s = CHR ''-'');
          r = (if s \<noteq> [] \<and> (hd s = CHR ''-'' \<or> hd s = CHR ''+'') then tl s else s);
          ds = takeWhile isDigit r;
          v = foldl (\<lambda>a d. 10 * a + (int (of_char d) - 48)) 0 ds;
          v = (if neg then - v else v)
      in if ds = [] then 0 else if - (2 ^ 63) \<le> v \<and> v < 2 ^ 63 then v else 0)"

text \<open>
  \<open>filepath.Clean\<close> on a Unix path, element by element: empty elements and \<open>.\<close> are
  dropped, \<open>..\<close> removes the element before it (at the root it is dropped, at the start of
  a relative path it is kept). \<open>out\<close> is the cleaned path so far, last element first.
\<close>

definition Clean_step :: "bool \<Rightarrow> string list \<Rightarrow> string \<Rightarrow> string list" where
  "Clean_step rooted out e =
     (if e = [] \<or> e = ''.'' then out
      else if e = ''..'' then
        (case out of
           [] \<Rightarrow> (if rooted then [] else [''..''])
         | x # xs \<Rightarrow> (if x = ''..'' then ''..'' # out else xs))
      else e # out)"

definition Clean :: "string \<Rightarrow> string" where
  "Clean path =
     (if path = [] then ''.''
      else
        (let rooted = (hd path = CHR ''/'');
             out = rev (foldl (Clean_step rooted) [] (Split path (CHR ''/'')))
         in if rooted then CHR ''/'' # Join out ''/''
            else if out = [] then ''.'' else Join out ''/''))"

text \<open>\<open>filepath.Dir\<close>: the path up to and with its last slash, cleaned.\<close>

definition Dir :: "string \<Rightarrow> string" where
  "Dir path = Clean (rev (dropWhile (\<lambda>c. c \<noteq> CHR ''/'') (rev path)))"

definition Base :: "string \<Rightarrow> string" where
  "Base path =
     (if path = [] then ''.''
      else
        (let p = rev (dropWhile (\<lambda>c. c = CHR ''/'') (rev path))
         in if p = [] then ''/'' else rev (takeWhile (\<lambda>c. c \<noteq> CHR ''/'') (rev p))))"

text \<open>\<open>filepath.Join\<close>: the elements from the first non-empty one on, joined and cleaned.\<close>

definition filepath_Join :: "string list \<Rightarrow> string" where
  "filepath_Join elem =
     (case dropWhile (\<lambda>e. e = []) elem of [] \<Rightarrow> [] | es \<Rightarrow> Clean (Join es ''/''))"

section \<open>Sorting (package sort)\<close>

text \<open>
  \<open>sort.SliceStable\<close> with a comparison \<open>lt\<close>: each element is inserted before the first
  element that is not less than it, so elements that compare equal keep their order.
  For a strict weak order this is the one result a stable sort has.
\<close>

fun insert_by :: "('a \<Rightarrow> 'a \<Rightarrow> bool) \<Rightarrow> 'a \<Rightarrow> 'a list \<Rightarrow> 'a list" where
  "insert_by lt x [] = [x]"
| "insert_by lt x (y # ys) = (if lt y x then y # insert_by lt x ys else x # y # ys)"

definition SliceStable :: "('a \<Rightarrow> 'a \<Rightarrow> bool) \<Rightarrow> 'a list \<Rightarrow> 'a list" where
  "SliceStable lt xs = foldr (insert_by lt) xs []"

text \<open>
  \<open>sort.Slice\<close> is not stable: it leaves some permutation of the slice in which no later
  element is less than an earlier one. \<open>Slice_result lt xs ys\<close> says that \<open>ys\<close> is such a
  result for \<open>xs\<close>; \<open>Slice\<close> is one function that computes one.
\<close>

definition Slice_result :: "('a \<Rightarrow> 'a \<Rightarrow> bool) \<Rightarrow> 'a list \<Rightarrow> 'a list \<Rightarrow> bool" where
  "Slice_result lt xs ys = (mset ys = mset xs \<and> sorted_wrt (\<lambda>a b. \<not> lt b a) ys)"

definition Slice :: "('a \<Rightarrow> 'a \<Rightarrow> bool) \<Rightarrow> 'a list \<Rightarrow> 'a list" where
  "Slice lt xs = foldr (insert_by lt) xs []"

section \<open>The remote session (package transfer)\<close>

record RemoteFile =
  Name :: string
  Path :: string
  IsDir :: bool
  Size :: int
  ModTime :: string

text \<open>
  A returned Go \<open>error\<close> is \<open>Failed\<close> with its message; the two runtime panics the code can
  raise are errors of their own.
\<close>

datatype error = Failed string | IndexOutOfRange | NilDereference

text \<open>
  The SSH client is the outside world. During one call of the session's methods,
  \<open>NewSession c k\<close> is the error of the \<open>k\<close>-th call of \<open>s.client.NewSession()\<close>
  (\<open>None\<close>: the session opened), and \<open>Output c k cmd\<close> is what \<open>Output(cmd)\<close> returns on that
  session: the bytes of standard output and the error, if any.
\<close>

record Client =
  NewSession :: "nat \<Rightarrow> string option"
  Output :: "nat \<Rightarrow> string \<Rightarrow> string \<times> string option"

text \<open>The expansion of a leading \<open>~\<close>, on the session with index 1 when there is one to expand.\<close>

definition expand_home :: "Client \<Rightarrow> string \<Rightarrow> string \<times> nat" where
  "expand_home c path =
     (if HasPrefix path ''~'' then
        (case NewSession c 1 of
           Some e \<Rightarrow> (path, 2)
         | None \<Rightarrow>
             (case Output c 1 ''echo $HOME'' of
                (homeOutput, None) \<Rightarrow> (Replace path ''~'' (TrimSpace homeOutput) 1, 2)
              | (homeOutput, Some e) \<Rightarrow> (path, 2)))
      else (path, 1))"

definition ListDirectory_cmd :: "string \<Rightarrow> string" where
  "ListDirectory_cmd path = ''ls -la '' @ Quote path @ '' 2>/dev/null | tail -n +2''"

definition ListDirectory_checkCmd :: "string \<Rightarrow> string" where
  "ListDirectory_checkCmd linkPath = ''test -d '' @ Quote linkPath @ '' && echo dir''"

text \<open>The loop over the lines of \<open>ls -la\<close>; \<open>k\<close> is the index of the next session to open.\<close>

fun ListDirectory_lines :: "Client \<Rightarrow> string \<Rightarrow> nat \<Rightarrow> string list \<Rightarrow> RemoteFile list" where
  "ListDirectory_lines c path k [] = []"
| "ListDirectory_lines c path k (l # ls) =
     (let line = TrimSpace l in
      if line = [] then ListDirectory_lines c path k ls
      else
        (let fields = Fields line in
         if length fields < 9 then ListDirectory_lines c path k ls
         else
           (let permissions = fields ! 0;
                size = Sscan_d (fields ! 4);
                name = Join (drop 8 fields) '' ''
            in if name = ''.'' \<or> name = ''..'' then ListDirectory_lines c path k ls
               else
                 (let isDir = HasPrefix permissions ''d'';
                      isLink = HasPrefix permissions ''l'';
                      isDir' =
                        (if isLink \<and> NewSession c k = None
                         then TrimSpace (fst (Output c k
                                (ListDirectory_checkCmd (filepath_Join [path, name])))) = ''dir''
                         else isDir);
                      k' = (if isLink then Suc k else k)
                  in \<lparr>Name = name, Path = filepath_Join [path, name], IsDir = isDir',
                      Size = size, ModTime = []\<rparr>
                     # ListDirectory_lines c path k' ls))))"

definition ListDirectory_less :: "RemoteFile \<Rightarrow> RemoteFile \<Rightarrow> bool" where
  "ListDirectory_less fi fj =
     (if Name fi = ''..'' then True
      else if Name fj = ''..'' then False
      else if IsDir fi \<noteq> IsDir fj then IsDir fi
      else ToLower (Name fi) < ToLower (Name fj))"

text \<open>
  \<open>ListDirectory\<close> up to the sort: the path after the expansion of \<open>~\<close>, and the entries in
  the order of the listing, the parent entry first.
\<close>

definition ListDirectory_files :: "Client \<Rightarrow> string \<Rightarrow> error + (string \<times> RemoteFile list)" where
  "ListDirectory_files c path0 =
     (case NewSession c 0 of
        Some e \<Rightarrow> Inl (Failed (''failed to create session: '' @ e))
      | None \<Rightarrow>
          (let (path, k) = expand_home c path0 in
           case Output c 0 (ListDirectory_cmd path) of
             (output, Some e) \<Rightarrow> Inl (Failed (''failed to list directory: '' @ e))
           | (output, None) \<Rightarrow>
               Inr (path,
                    (if path \<noteq> ''/''
                     then [\<lparr>Name = ''..'', Path = Dir path, IsDir = True, Size = 0, ModTime = []\<rparr>]
                     else [])
                    @ ListDirectory_lines c path k (Split output (CHR 0x0A)))))"

definition ListDirectory :: "Client \<Rightarrow> string \<Rightarrow> error + RemoteFile list" where
  "ListDirectory c path0 =
     (case ListDirectory_files c path0 of
        Inl e \<Rightarrow> Inl e
      | Inr (path, files) \<Rightarrow> Inr (Slice ListDirectory_less files))"

text \<open>The seven \<open>strings.ReplaceAll\<close> calls of \<open>QuickSearch\<close>, in their order.\<close>

definition QuickSearch_sanitize :: "string \<Rightarrow> string" where
  "QuickSearch_sanitize pattern0 =
     (let pattern = ReplaceAll pattern0 [CHR 0x27] [];
          pattern = ReplaceAll pattern [CHR 0x22] [];
          pattern = ReplaceAll pattern '';'' [];
          pattern = ReplaceAll pattern ''|'' [];
          pattern = ReplaceAll pattern ''&'' [];
          pattern = ReplaceAll pattern ''$'' [];
          pattern = ReplaceAll pattern [CHR 0x60] []
      in pattern)"

text \<open>
  The two command lines of \<open>QuickSearch\<close>, split where \<open>fmt.Sprintf\<close> puts the pattern
  (verb \<open>%s\<close>): \<open>head\<close>, the pattern, \<open>tail\<close>.
\<close>

definition QuickSearch_cmd_head :: "string \<Rightarrow> string" where
  "QuickSearch_cmd_head startDir =
     ''timeout 3s find '' @ Quote startDir @ '' -maxdepth 5 -iname '' @ [CHR 0x27, CHR ''*'']"

definition QuickSearch_cmd_tail :: "int \<Rightarrow> string" where
  "QuickSearch_cmd_tail limit =
     [CHR ''*'', CHR 0x27] @ '' -printf '' @ [CHR 0x27] @ ''%y %p'' @ [CHR 0x5C] @ ''n''
     @ [CHR 0x27] @ '' 2>/dev/null | head -n '' @ Itoa limit"

definition QuickSearch_cmd :: "string \<Rightarrow> string \<Rightarrow> int \<Rightarrow> string" where
  "QuickSearch_cmd startDir pattern limit =
     QuickSearch_cmd_head startDir @ pattern @ QuickSearch_cmd_tail limit"

definition QuickSearch_cmd2_head :: "string \<Rightarrow> string" where
  "QuickSearch_cmd2_head startDir =
     ''find '' @ Quote startDir @ '' -maxdepth 5 -iname '' @ [CHR 0x27, CHR ''*'']"

definition QuickSearch_cmd2_tail :: "int \<Rightarrow> string" where
  "QuickSearch_cmd2_tail limit =
     [CHR ''*'', CHR 0x27] @ '' 2>/dev/null | head -n '' @ Itoa limit
     @ '' | while read f; do if [ -d '' @ [CHR 0x22] @ ''$f'' @ [CHR 0x22] @ '' ]; then echo ''
     @ [CHR 0x22] @ ''d $f'' @ [CHR 0x22] @ ''; else echo '' @ [CHR 0x22] @ ''f $f'' @ [CHR 0x22]
     @ ''; fi; done''"

definition QuickSearch_cmd2 :: "string \<Rightarrow> string \<Rightarrow> int \<Rightarrow> string" where
  "QuickSearch_cmd2 startDir pattern limit =
     QuickSearch_cmd2_head startDir @ pattern @ QuickSearch_cmd2_tail limit"

text \<open>The loop of \<open>QuickSearch\<close> over the lines of the output.\<close>

fun QuickSearch_lines :: "string list \<Rightarrow> RemoteFile list" where
  "QuickSearch_lines [] = []"
| "QuickSearch_lines (l # ls) =
     (let line = TrimSpace l in
      if line = [] \<or> length line < 3 then QuickSearch_lines ls
      else
        (let typeChar = hd line;
             path = TrimSpace (drop 2 line)
         in \<lparr>Name = Base path, Path = path, IsDir = (typeChar = CHR ''d''), Size = 0, ModTime = []\<rparr>
            # QuickSearch_lines ls))"

text \<open>
  \<open>QuickSearch\<close>. The second command runs on a session whose error is dropped
  (\<open>session2, _ := s.client.NewSession()\<close>): when it did not open, \<open>session2\<close> is nil and
  \<open>session2.Output\<close> dereferences it.
\<close>

definition QuickSearch :: "Client \<Rightarrow> string \<Rightarrow> string \<Rightarrow> int \<Rightarrow> error + RemoteFile list" where
  "QuickSearch c pattern0 startDir0 limit0 =
     (let limit = (if limit0 \<le> 0 then 30 else limit0) in
      case NewSession c 0 of
        Some e \<Rightarrow> Inl (Failed e)
      | None \<Rightarrow>
          (let (startDir, k) = expand_home c startDir0;
               pattern = QuickSearch_sanitize pattern0
           in case Output c 0 (QuickSearch_cmd startDir pattern limit) of
                (output, None) \<Rightarrow> Inr (QuickSearch_lines (Split output (CHR 0x0A)))
              | (output, Some e) \<Rightarrow>
                  (case NewSession c k of
                     Some e2 \<Rightarrow> Inl NilDereference
                   | None \<Rightarrow>
                       (case Output c k (QuickSearch_cmd2 startDir pattern limit) of
                          (output2, Some e2) \<Rightarrow> Inr []
                        | (output2, None) \<Rightarrow> Inr (QuickSearch_lines (Split output2 (CHR 0x0A)))))))"

section \<open>The remote browser (package ui)\<close>

datatype BrowserMode = BrowseFiles | BrowseDirectories

text \<open>
  The fields of \<open>remoteBrowserModel\<close> that are data. The styles and the pointer to the SSH
  session are left out: \<open>Update\<close> reads neither, it only closes the session.
  \<open>cursor\<close> is a Go \<open>int\<close>; a nil slice is the empty list.
\<close>

record remoteBrowserModel =
  host :: string
  configFile :: string
  currentDir :: string
  files :: "RemoteFile list"
  visibleFiles :: "RemoteFile list"
  cursor :: int
  selected :: string
  err :: string
  loading :: bool
  mode :: BrowserMode
  width :: int
  height :: int
  searchMode :: bool
  searchQuery :: string
  searchFiles :: "RemoteFile list"
  hasLocate :: bool
  showHidden :: bool
  pendingSearch :: string
  searchTriggered :: bool

text \<open>
  The messages \<open>Update\<close> distinguishes. A \<open>tea.KeyMsg\<close> is taken by its \<open>String()\<close>, the
  only thing \<open>Update\<close> reads of it. The error of a completion is its message, if any.
\<close>

datatype Msg =
    remoteBrowserLoadedMsg "RemoteFile list" string "string option"
  | remoteBrowserSearchMsg "RemoteFile list" string "string option"
  | searchDebounceMsg string
  | KeyMsg string
  | OtherMsg

text \<open>
  The commands \<open>Update\<close> returns: \<open>m.loadDirectory(path)\<close>, \<open>m.runSearch()\<close> with the query it
  captured, \<open>m.scheduleSearch(query)\<close>, and the function that delivers a
  \<open>remoteBrowserResultMsg{path, selected}\<close>.
\<close>

datatype Cmd =
    loadDirectory string
  | runSearch string
  | scheduleSearch string
  | resultMsg string bool

definition NewRemoteBrowser ::
  "string \<Rightarrow> string \<Rightarrow> string \<Rightarrow> BrowserMode \<Rightarrow> int \<Rightarrow> int \<Rightarrow> remoteBrowserModel" where
  "NewRemoteBrowser h startPath cfg md w ht =
     \<lparr>host = h, configFile = cfg, currentDir = (if startPath = [] then ''~'' else startPath),
      files = [], visibleFiles = [], cursor = 0, selected = [], err = [], loading = True,
      mode = md, width = w, height = ht, searchMode = False, searchQuery = [],
      searchFiles = [], hasLocate = False, showHidden = False, pendingSearch = [],
      searchTriggered = False\<rparr>"

definition Init :: "remoteBrowserModel \<Rightarrow> Cmd option" where
  "Init m = Some (loadDirectory (currentDir m))"

text \<open>Indexing a slice with an \<open>int\<close> panics outside \<open>0 \<le> i < len\<close>.\<close>

definition index :: "'a list \<Rightarrow> int \<Rightarrow> error + 'a" where
  "index xs i = (if 0 \<le> i \<and> i < int (length xs) then Inr (xs ! nat i) else Inl IndexOutOfRange)"

definition filterFiles :: "remoteBrowserModel \<Rightarrow> remoteBrowserModel" where
  "filterFiles m =
     (if showHidden m then m\<lparr>visibleFiles := files m\<rparr>
      else m\<lparr>visibleFiles :=
             filter (\<lambda>f. Name f = ''..'' \<or> \<not> HasPrefix (Name f) ''.'') (files m)\<rparr>)"

definition clampCursor :: "nat \<Rightarrow> remoteBrowserModel \<Rightarrow> remoteBrowserModel" where
  "clampCursor n m =
     (if cursor m \<ge> int n then
        (let m1 = m\<lparr>cursor := int n - 1\<rparr> in if cursor m1 < 0 then m1\<lparr>cursor := 0\<rparr> else m1)
      else m)"

definition filterSearchResults :: "remoteBrowserModel \<Rightarrow> remoteBrowserModel" where
  "filterSearchResults m =
     (if length (searchQuery m) < 3 then m
      else
        (let query = ToLower (searchQuery m);
             filtered = filter (\<lambda>f. Contains (ToLower (Name f)) query
                                   \<or> Contains (ToLower (Path f)) query) (searchFiles m);
             m1 = m\<lparr>searchFiles := filtered\<rparr>
         in clampCursor (length (searchFiles m1)) m1))"

text \<open>The comparison that \<open>sortSearchResults\<close> gives to \<open>sort.SliceStable\<close>.\<close>

definition sortSearchResults_less :: "string \<Rightarrow> RemoteFile \<Rightarrow> RemoteFile \<Rightarrow> bool" where
  "sortSearchResults_less query fi fj =
     (let nameI = ToLower (Name fi); nameJ = ToLower (Name fj);
          exactI = (nameI = query); exactJ = (nameJ = query);
          startsI = HasPrefix nameI query; startsJ = HasPrefix nameJ query;
          containsI = Contains nameI query; containsJ = Contains nameJ query
      in if exactI \<noteq> exactJ then exactI
         else if startsI \<noteq> startsJ then startsI
         else if containsI \<noteq> containsJ then containsI
         else length (Path fi) < length (Path fj))"

definition sortSearchResults :: "remoteBrowserModel \<Rightarrow> remoteBrowserModel" where
  "sortSearchResults m =
     (if length (searchFiles m) = 0 \<or> length (searchQuery m) < 3 then m
      else m\<lparr>searchFiles :=
             SliceStable (sortSearchResults_less (ToLower (searchQuery m))) (searchFiles m)\<rparr>)"

text \<open>Keys while a search is running (\<open>m.loading && m.searchMode\<close>).\<close>

definition Update_key_searching ::
  "string \<Rightarrow> remoteBrowserModel \<Rightarrow> error + (remoteBrowserModel \<times> Cmd option)" where
  "Update_key_searching k m =
     (if k = ''esc'' then
        Inr (m\<lparr>searchMode := False, searchQuery := [], searchFiles := [], pendingSearch := [],
               searchTriggered := False, loading := False, cursor := 0\<rparr>, None)
      else if k = ''up'' \<or> k = ''ctrl+p'' then
        Inr (if cursor m > 0 then m\<lparr>cursor := cursor m - 1\<rparr> else m, None)
      else if k = ''down'' \<or> k = ''ctrl+n'' then
        Inr (if cursor m < int (length (searchFiles m)) - 1 then m\<lparr>cursor := cursor m + 1\<rparr> else m,
             None)
      else Inr (m, None))"

text \<open>Keys in search mode.\<close>

definition Update_key_search ::
  "string \<Rightarrow> remoteBrowserModel \<Rightarrow> error + (remoteBrowserModel \<times> Cmd option)" where
  "Update_key_search k m =
     (if k = ''esc'' \<or> k = ''ctrl+c'' then
        Inr (m\<lparr>searchMode := False, searchQuery := [], searchFiles := [], pendingSearch := [],
               searchTriggered := False, cursor := 0\<rparr>, None)
      else if k = ''enter'' then
        (if length (searchFiles m) > 0 \<and> cursor m < int (length (searchFiles m)) then
           (case index (searchFiles m) (cursor m) of
              Inl e \<Rightarrow> Inl e
            | Inr file \<Rightarrow>
                (if IsDir file then
                   Inr (m\<lparr>searchMode := False, searchQuery := [], searchFiles := [],
                          pendingSearch := [], searchTriggered := False, loading := True\<rparr>,
                        Some (loadDirectory (Path file)))
                 else if mode m = BrowseFiles then Inr (m, Some (resultMsg (Path file) True))
                 else Inr (m, None)))
         else Inr (m, None))
      else if k = ''up'' \<or> k = ''ctrl+p'' then
        Inr (if cursor m > 0 then m\<lparr>cursor := cursor m - 1\<rparr> else m, None)
      else if k = ''down'' \<or> k = ''ctrl+n'' then
        Inr (if cursor m < int (length (searchFiles m)) - 1 then m\<lparr>cursor := cursor m + 1\<rparr> else m,
             None)
      else if k = ''backspace'' then
        (if length (searchQuery m) > 0 then
           (let m1 = m\<lparr>searchQuery := take (length (searchQuery m) - 1) (searchQuery m),
                        searchTriggered := False\<rparr>
            in if length (searchQuery m1) < 3 then
                 Inr (m1\<lparr>searchFiles := [], pendingSearch := []\<rparr>, None)
               else
                 Inr ((if length (searchFiles m1) > 0 then filterSearchResults m1 else m1)
                        \<lparr>pendingSearch := []\<rparr>, None))
         else Inr (m, None))
      else
        (if length k = 1 \<and> of_char (k ! 0) \<ge> (32::nat) \<and> of_char (k ! 0) < (127::nat) then
           (let m1 = m\<lparr>searchQuery := searchQuery m @ k, searchTriggered := False\<rparr>
            in if length (searchQuery m1) \<ge> 3 then
                 Inr (m1\<lparr>pendingSearch := searchQuery m1\<rparr>, Some (scheduleSearch (searchQuery m1)))
               else Inr (m1, None))
         else Inr (m, None)))"

text \<open>Keys in normal mode.\<close>

definition Update_key_normal ::
  "string \<Rightarrow> remoteBrowserModel \<Rightarrow> error + (remoteBrowserModel \<times> Cmd option)" where
  "Update_key_normal k m =
     (if k = ''q'' \<or> k = ''ctrl+c'' then Inr (m, Some (resultMsg [] False))
      else if k = ''esc'' then
        (if searchMode m then
           Inr (m\<lparr>searchMode := False, searchQuery := [], searchFiles := []\<rparr>, None)
         else Inr (m, Some (resultMsg [] False)))
      else if k = ''/'' then
        Inr (m\<lparr>searchMode := True, searchQuery := [], searchFiles := [], cursor := 0\<rparr>, None)
      else if k = ''.'' then
        (let m1 = filterFiles (m\<lparr>showHidden := \<not> showHidden m\<rparr>)
         in Inr (clampCursor (length (visibleFiles m1)) m1, None))
      else if k = ''r'' \<or> k = ''R'' then
        Inr (m\<lparr>err := [], loading := True\<rparr>, Some (loadDirectory (currentDir m)))
      else if k = ''enter'' then
        (if length (visibleFiles m) = 0 then Inr (m, None)
         else
           (case index (visibleFiles m) (cursor m) of
              Inl e \<Rightarrow> Inl e
            | Inr file \<Rightarrow>
                (if IsDir file then Inr (m\<lparr>loading := True\<rparr>, Some (loadDirectory (Path file)))
                 else if mode m = BrowseFiles then Inr (m, Some (resultMsg (Path file) True))
                 else Inr (m, None))))
      else if k = ''s'' \<or> k = '' '' then
        (if mode m = BrowseDirectories then
           (if searchMode m \<and> length (searchFiles m) > 0 then
              (case index (searchFiles m) (cursor m) of
                 Inl e \<Rightarrow> Inl e
               | Inr file \<Rightarrow>
                   Inr (m, Some (resultMsg (if IsDir file then Path file else currentDir m) True)))
            else Inr (m, Some (resultMsg (currentDir m) True)))
         else Inr (m, None))
      else if k = ''up'' \<or> k = ''k'' then
        Inr (if cursor m > 0 then m\<lparr>cursor := cursor m - 1\<rparr> else m, None)
      else if k = ''down'' \<or> k = ''j'' then
        Inr (if cursor m < int (length (visibleFiles m)) - 1 then m\<lparr>cursor := cursor m + 1\<rparr> else m,
             None)
      else if k = ''home'' \<or> k = ''g'' then Inr (m\<lparr>cursor := 0\<rparr>, None)
      else if k = ''end'' \<or> k = ''G'' then
        Inr (if length (visibleFiles m) > 0 then m\<lparr>cursor := int (length (visibleFiles m)) - 1\<rparr>
             else m, None)
      else if k = ''backspace'' \<or> k = ''h'' \<or> k = ''left'' then
        (let parent = Dir (currentDir m)
         in if parent \<noteq> currentDir m then Inr (m\<lparr>loading := True\<rparr>, Some (loadDirectory parent))
            else Inr (m, None))
      else if k = ''~'' then Inr (m\<lparr>loading := True\<rparr>, Some (loadDirectory ''~''))
      else if k = ''right'' \<or> k = ''l'' then
        (if length (visibleFiles m) > 0 then
           (case index (visibleFiles m) (cursor m) of
              Inl e \<Rightarrow> Inl e
            | Inr file \<Rightarrow>
                (if IsDir file then Inr (m\<lparr>loading := True\<rparr>, Some (loadDirectory (Path file)))
                 else Inr (m, None)))
         else Inr (m, None))
      else Inr (m, None))"

text \<open>
  \<open>Update\<close>: the new model and the command, or the panic of an index out of range.
\<close>

fun Update :: "Msg \<Rightarrow> remoteBrowserModel \<Rightarrow> error + (remoteBrowserModel \<times> Cmd option)" where
  "Update (remoteBrowserLoadedMsg fs d e) m =
     (let m1 = m\<lparr>loading := False\<rparr> in
      case e of
        Some msg \<Rightarrow> Inr (m1\<lparr>err := msg\<rparr>, None)
      | None \<Rightarrow>
          Inr (filterFiles (m1\<lparr>files := fs, currentDir := d, cursor := 0, err := [],
                               searchMode := False, searchQuery := [], searchFiles := []\<rparr>),
               None))"
| "Update (remoteBrowserSearchMsg fs q e) m =
     (if q \<noteq> searchQuery m then Inr (m, None)
      else
        (let m1 = m\<lparr>loading := False, searchTriggered := True\<rparr> in
         case e of
           Some msg \<Rightarrow> Inr (m1\<lparr>err := msg\<rparr>, None)
         | None \<Rightarrow> Inr ((sortSearchResults (m1\<lparr>searchFiles := fs\<rparr>))\<lparr>cursor := 0, err := []\<rparr>, None)))"
| "Update (searchDebounceMsg q) m =
     (if q = searchQuery m \<and> length (searchQuery m) \<ge> 3 \<and> \<not> searchTriggered m then
        Inr (m\<lparr>loading := True, pendingSearch := []\<rparr>, Some (runSearch (searchQuery m)))
      else Inr (m, None))"
| "Update (KeyMsg k) m =
     (if loading m \<and> searchMode m then Update_key_searching k m
      else if loading m then Inr (m, None)
      else if searchMode m then Update_key_search k m
      else Update_key_normal k m)"
| "Update OtherMsg m = Inr (m, None)"

text \<open>
  The event loop: the messages of a list are given to \<open>Update\<close> one after the other. The
  result is the last model with the commands returned on the way, or the panic that ended
  the program.
\<close>

fun Updates ::
  "Msg list \<Rightarrow> remoteBrowserModel \<Rightarrow> error + (remoteBrowserModel \<times> Cmd list)" where
  "Updates [] m = Inr (m, [])"
| "Updates (msg # msgs) m =
     (case Update msg m of
        Inl e \<Rightarrow> Inl e
      | Inr (m', c) \<Rightarrow>
          (case Updates msgs m' of
             Inl e \<Rightarrow> Inl e
           | Inr (m'', cs) \<Rightarrow> Inr (m'', (case c of None \<Rightarrow> cs | Some x \<Rightarrow> x # cs))))"

text \<open>
  The function that \<open>runSearch\<close> returns, run in the background: the message it sends.
  \<open>session\<close> is \<open>m.session\<close> (\<open>None\<close> is nil), \<open>query\<close> the query captured when the command was
  made, \<open>d\<close> the current directory when it runs.
\<close>

definition runSearch_msg :: "Client option \<Rightarrow> string \<Rightarrow> string \<Rightarrow> error + Msg" where
  "runSearch_msg session query d =
     (case session of
        None \<Rightarrow> Inr (remoteBrowserSearchMsg [] query (Some ''no session''))
      | Some c \<Rightarrow>
          (case QuickSearch c query d 30 of
             Inl (Failed e) \<Rightarrow> Inr (remoteBrowserSearchMsg [] query (Some e))
           | Inl p \<Rightarrow> Inl p
           | Inr fs \<Rightarrow> Inr (remoteBrowserSearchMsg fs query None)))"

text \<open>The list the view displays: the search results in search mode, else the visible files.\<close>

definition displayed :: "remoteBrowserModel \<Rightarrow> RemoteFile list" where
  "displayed m = (if searchMode m then searchFiles m else visibleFiles m)"

section \<open>The quick-transfer wizard (package ui) and the transfer request (package transfer)\<close>

datatype Direction = Upload | Download

datatype UploadType = UploadFile | UploadFolder

record TransferRequest =
  req_Host :: string
  req_Direction :: Direction
  req_LocalPath :: string
  req_RemotePath :: string
  req_Recursive :: bool
  req_ConfigFile :: string

text \<open>The fields of \<open>quickTransferModel\<close> that \<open>executeTransfer\<close> reads.\<close>

record quickTransferModel =
  qt_hostName :: string
  qt_configFile :: string
  qt_direction :: Direction
  qt_uploadType :: UploadType
  qt_downloadType :: UploadType
  qt_localPath :: string
  qt_remotePath :: string

text \<open>
  The request that \<open>executeTransfer\<close> builds and starts. \<open>stat\<close> is \<open>os.Stat\<close> on the local
  file system: \<open>None\<close> when it returns an error, else whether the path is a directory.
\<close>

definition executeTransfer :: "(string \<Rightarrow> bool option) \<Rightarrow> quickTransferModel \<Rightarrow> TransferRequest" where
  "executeTransfer stat m =
     (let localPath0 = qt_localPath m;
          isDir = (stat localPath0 = Some True);
          recursive =
            (if qt_direction m = Upload then isDir else qt_downloadType m = UploadFolder);
          localPath =
            (if qt_direction m = Upload then localPath0
             else if isDir then filepath_Join [localPath0, Base (qt_remotePath m)]
             else localPath0)
      in \<lparr>req_Host = qt_hostName m, req_Direction = qt_direction m, req_LocalPath = localPath,
          req_RemotePath = qt_remotePath m, req_Recursive = recursive,
          req_ConfigFile = qt_configFile m\<rparr>)"

section \<open>Words of the specification\<close>

text \<open>The seven shell metacharacters the specification lists for \<open>quickSearch\<close>.\<close>

definition shell_metacharacters :: "char list" where
  "shell_metacharacters =
     [CHR 0x27, CHR 0x22, CHR '';'', CHR ''|'', CHR ''&'', CHR ''$'', CHR 0x60]"

text \<open>
  The ranking of a search result, in the specification's words: 0 when the name is the
  query, 1 when it only starts with it, 2 when it only contains it, 3 otherwise (the match
  is in the path); names are compared in lower case.
\<close>

definition match_class :: "string \<Rightarrow> RemoteFile \<Rightarrow> nat" where
  "match_class query f =
     (if ToLower (Name f) = query then 0
      else if HasPrefix (ToLower (Name f)) query then 1
      else if Contains (ToLower (Name f)) query then 2
      else 3)"

text \<open>The rank that orders the search results: the class, then the length of the path.\<close>

definition rank :: "string \<Rightarrow> RemoteFile \<Rightarrow> nat \<times> nat" where
  "rank query f = (match_class query f, length (Path f))"

text \<open>
  The filesystem root, in the specification's words: a path that names the directory \<open>/\<close>,
  however it is written (\<open>/\<close>, \<open>//\<close>, \<open>/.\<close>, \<open>/etc/..\<close>).
\<close>

definition filesystem_root :: "string \<Rightarrow> bool" where
  "filesystem_root path = (Clean path = ''/'')"

text \<open>The entries of a listing other than the parent entry, and the name a listing sorts by.\<close>

definition body :: "RemoteFile list \<Rightarrow> RemoteFile list" where
  "body ys = filter (\<lambda>f. Name f \<noteq> ''..'') ys"

definition lower_name :: "RemoteFile \<Rightarrow> string" where
  "lower_name f = ToLower (Name f)"

definition parent_entry :: "string \<Rightarrow> RemoteFile" where
  "parent_entry path = \<lparr>Name = ''..'', Path = Dir path, IsDir = True, Size = 0, ModTime = []\<rparr>"

text \<open>
  The key that orders the entries of a listing other than the parent entry: directories
  (\<open>False\<close>) before files (\<open>True\<close>), then the name in lower case.
\<close>

definition listing_key :: "RemoteFile \<Rightarrow> bool \<times> string" where
  "listing_key f = (\<not> IsDir f, lower_name f)"

section \<open>Example inputs\<close>

definition entry :: "string \<Rightarrow> string \<Rightarrow> bool \<Rightarrow> RemoteFile" where
  "entry n p d = \<lparr>Name = n, Path = p, IsDir = d, Size = 0, ModTime = []\<rparr>"

definition example_browser :: remoteBrowserModel where
  "example_browser = NewRemoteBrowser ''myhost'' [] [] BrowseFiles 80 24"

text \<open>
  A session: the home directory is listed, the user searches for \<open>log\<close>, moves to the
  second result, a directory, and enters it; the listing of that directory fails.
\<close>

definition example_search :: "Msg list" where
  "example_search =
     [remoteBrowserLoadedMsg [entry ''..'' ''/home'' True] ''/home/u'' None,
      KeyMsg ''/'', KeyMsg ''l'', KeyMsg ''o'', KeyMsg ''g'',
      searchDebounceMsg ''log'',
      remoteBrowserSearchMsg
        [entry ''app.log'' ''/home/u/x/app.log'' False,
         entry ''logs'' ''/home/u/logs'' True,
         entry ''Log'' ''/home/u/a/Log'' True] ''log'' None]"

definition example_failed_load :: "Msg list" where
  "example_failed_load =
     example_search
     @ [KeyMsg ''down'', KeyMsg ''enter'',
        remoteBrowserLoadedMsg [] [] (Some ''failed to create session: EOF'')]"

text \<open>The models the session goes through: after the search, and after the failed listing.\<close>

definition example_searching :: remoteBrowserModel where
  "example_searching =
     example_browser
       \<lparr>currentDir := ''/home/u'', files := [entry ''..'' ''/home'' True],
        visibleFiles := [entry ''..'' ''/home'' True], loading := False,
        searchMode := True, searchQuery := ''log'',
        searchFiles := [entry ''Log'' ''/home/u/a/Log'' True,
                        entry ''logs'' ''/home/u/logs'' True,
                        entry ''app.log'' ''/home/u/x/app.log'' False],
        searchTriggered := True\<rparr>"

definition example_after_failed_load :: remoteBrowserModel where
  "example_after_failed_load =
     example_browser
       \<lparr>currentDir := ''/home/u'', files := [entry ''..'' ''/home'' True],
        visibleFiles := [entry ''..'' ''/home'' True], cursor := 1,
        err := ''failed to create session: EOF'', loading := False\<rparr>"

text \<open>A browser at rest in \<open>/home/u\<close>, and a listing of \<open>/tmp\<close> that arrives there.\<close>

definition example_idle :: remoteBrowserModel where
  "example_idle =
     example_browser
       \<lparr>currentDir := ''/home/u'', files := [entry ''..'' ''/home'' True],
        visibleFiles := [entry ''..'' ''/home'' True], loading := False\<rparr>"

definition example_tmp_listing :: Msg where
  "example_tmp_listing =
     remoteBrowserLoadedMsg [entry ''..'' ''/'' True, entry ''x'' ''/tmp/x'' False] ''/tmp'' None"

text \<open>The model when the query \<open>log\<close> has been typed and the delay of the search elapses.\<close>

definition example_typed :: remoteBrowserModel where
  "example_typed =
     example_browser
       \<lparr>currentDir := ''/home/u'', files := [entry ''..'' ''/home'' True],
        visibleFiles := [entry ''..'' ''/home'' True], loading := False,
        searchMode := True, searchQuery := ''log'', pendingSearch := ''log''\<rparr>"

text \<open>A client on which every session opens and every command fails.\<close>

definition failing_client :: Client where
  "failing_client =
     \<lparr>NewSession = (\<lambda>k. None),
      Output = (\<lambda>k cmd. ([], Some ''Process exited with status 1''))\<rparr>"

text \<open>
  A pattern with all seven characters in it, and two clients for it. The first answers
  only the search command that carries the cleaned pattern \<open>a(id)bc\<close>. The second answers
  that command alike, and also the command that would carry the pattern as typed.
\<close>

definition dirty_pattern :: string where
  "dirty_pattern = ''a$(id);'' @ [CHR 0x27, CHR 0x60] @ ''b|c&'' @ [CHR 0x22]"

definition answering_client :: Client where
  "answering_client =
     \<lparr>NewSession = (\<lambda>k. None),
      Output = (\<lambda>k cmd.
        if k = 0 \<and> cmd = QuickSearch_cmd_head ''/srv'' @ ''a(id)bc'' @ QuickSearch_cmd_tail 30
        then (''f /srv/a(id)bc'' @ [CHR 0x0A], None)
        else ([], Some ''Process exited with status 1''))\<rparr>"

definition noisy_client :: Client where
  "noisy_client =
     \<lparr>NewSession = (\<lambda>k. None),
      Output = (\<lambda>k cmd.
        if k = 0 \<and> cmd = QuickSearch_cmd_head ''/srv'' @ ''a(id)bc'' @ QuickSearch_cmd_tail 30
        then (''f /srv/a(id)bc'' @ [CHR 0x0A], None)
        else if cmd = QuickSearch_cmd_head ''/srv'' @ dirty_pattern @ QuickSearch_cmd_tail 30
        then (''f /etc/passwd'' @ [CHR 0x0A], None)
        else ([], Some ''Process exited with status 1''))\<rparr>"

text \<open>A client on which no session opens.\<close>

definition unreachable_client :: Client where
  "unreachable_client =
     \<lparr>NewSession = (\<lambda>k. Some ''EOF''), Output = (\<lambda>k cmd. ([], Some ''EOF''))\<rparr>"

text \<open>
  A client that lists \<open>/srv\<close>: the lines of \<open>ls -la\<close> after the first one. Every other
  command fails on it.
\<close>

definition ls_line :: "string \<Rightarrow> string \<Rightarrow> string" where
  "ls_line perms name = perms @ ''  2 user group  4096 Jan  1 12:00 '' @ name"

definition listing_client :: Client where
  "listing_client =
     \<lparr>NewSession = (\<lambda>k. None),
      Output = (\<lambda>k cmd.
        if cmd = ListDirectory_cmd ''/srv'' then
          (Join [ls_line ''drwxr-xr-x'' ''.'', ls_line ''drwxr-xr-x'' ''..'',
                 ls_line ''-rw-r--r--'' ''b.txt'', ls_line ''drwxr-xr-x'' ''Zeta'',
                 ls_line ''drwxr-xr-x'' ''alpha'', ls_line ''-rw-r--r--'' ''App.log'', []]
             [CHR 0x0A], None)
        else ([], Some ''Process exited with status 1''))\<rparr>"

definition listed :: "string \<Rightarrow> string \<Rightarrow> bool \<Rightarrow> RemoteFile" where
  "listed n p d = \<lparr>Name = n, Path = p, IsDir = d, Size = 4096, ModTime = []\<rparr>"

text \<open>A client that lists the root, asked for as \<open>//\<close>.\<close>

definition root_client :: Client where
  "root_client =
     \<lparr>NewSession = (\<lambda>k. None),
      Output = (\<lambda>k cmd.
        if cmd = ListDirectory_cmd ''//'' then
          (Join [ls_line ''drwxr-xr-x'' ''.'', ls_line ''drwxr-xr-x'' ''..'',
                 ls_line ''drwxr-xr-x'' ''etc'', []] [CHR 0x0A], None)
        else ([], Some ''Process exited with status 1''))\<rparr>"

text \<open>Search results for the query \<open>log\<close>, as they arrive.\<close>

definition example_results :: "RemoteFile list" where
  "example_results =
     [entry ''x'' ''/home/u/logs/x'' False,
      entry ''app.log'' ''/home/u/deep/app.log'' False,
      entry ''logo.png'' ''/home/u/logo.png'' False,
      entry ''catalog'' ''/home/u/catalog'' True,
      entry ''LOG'' ''/home/u/a/b/LOG'' False]"

text \<open>Eleven transfers to \<open>myhost\<close>, at times 1 to 11.\<close>

definition example_call :: "int \<Rightarrow> transfer_call" where
  "example_call i = \<lparr>at = i, dir = ''upload'', local = ''/tmp/f'', remote = ''/srv''\<rparr>"

definition eleven_transfers :: "transfer_call list" where
  "eleven_transfers = map example_call [1, 2, 3, 4, 5, 6, 7, 8, 9, 10, 11]"

definition empty_manager :: HistoryManager where
  "empty_manager = \<lparr>historyPath = ''sshm_history.json'', history = Map.empty\<rparr>"

text \<open>The download of \<open>/var/log/app.log\<close> into the existing directory \<open>./downloads/\<close>.\<close>

definition example_download :: quickTransferModel where
  "example_download =
     \<lparr>qt_hostName = ''myhost'', qt_configFile = [], qt_direction = Download,
      qt_uploadType = UploadFile, qt_downloadType = UploadFile,
      qt_localPath = ''./downloads/'', qt_remotePath = ''/var/log/app.log''\<rparr>"

definition example_stat :: "string \<Rightarrow> bool option" where
  "example_stat p = (if p = ''./downloads/'' then Some True else None)"

section \<open>Strings: properties\<close>

lemma Replace_byte_all: "n < 0 \<Longrightarrow> Replace s [c] [] n = filter (\<lambda>x. x \<noteq> c) s"
  by (induction s arbitrary: n) auto

lemma ReplaceAll_byte: "ReplaceAll s [c] [] = filter (\<lambda>x. x \<noteq> c) s"
  by (simp add: ReplaceAll_def Replace_byte_all)

lemma QuickSearch_sanitize_filter:
  "QuickSearch_sanitize p = filter (\<lambda>c. c \<notin> set shell_metacharacters) p"
  by (simp add: QuickSearch_sanitize_def ReplaceAll_byte Let_def shell_metacharacters_def
      conj_commute conj_left_commute)

lemma QuickSearch_sanitize_idem:
  "QuickSearch_sanitize (QuickSearch_sanitize p) = QuickSearch_sanitize p"
  by (simp add: QuickSearch_sanitize_filter)

section \<open>History: properties\<close>

lemma GetTransferHistory_RecordTransfer:
  "GetTransferHistory
     (fst (RecordTransfer saveHistory (at t) hm hostName (dir t) (local t) (remote t))) hostName
   = take 10 (entry_of t # GetTransferHistory hm hostName)"
  by (cases "history hm hostName")
     (simp_all add: RecordTransfer_def GetTransferHistory_def entry_of_def Let_def)

lemma take_append_take: "take n (ys @ take n xs) = take n (ys @ xs)"
  by (simp add: min_def)

lemma GetTransferHistory_RecordTransfers:
  "GetTransferHistory (RecordTransfers saveHistory hm hostName (t # ts)) hostName
   = take 10 (rev (map entry_of (t # ts)) @ GetTransferHistory hm hostName)"
proof (induction ts arbitrary: t hm)
  case Nil
  show ?case by (simp add: GetTransferHistory_RecordTransfer)
next
  case (Cons u us)
  let ?hm1 = "fst (RecordTransfer saveHistory (at t) hm hostName (dir t) (local t) (remote t))"
  have "GetTransferHistory (RecordTransfers saveHistory hm hostName (t # u # us)) hostName
        = GetTransferHistory (RecordTransfers saveHistory ?hm1 hostName (u # us)) hostName"
    by simp
  also have "\<dots> = take 10 (rev (map entry_of (u # us)) @ GetTransferHistory ?hm1 hostName)"
    by (rule Cons.IH)
  also have "\<dots> = take 10 (rev (map entry_of (u # us))
                      @ take 10 (entry_of t # GetTransferHistory hm hostName))"
    by (simp only: GetTransferHistory_RecordTransfer)
  also have "\<dots> = take 10 (rev (map entry_of (u # us)) @ entry_of t # GetTransferHistory hm hostName)"
    by (rule take_append_take)
  finally show ?case by simp
qed

text \<open>
  Claim C4. \<open>RecordTransfer\<close> puts the new entry in front of the host's transfer history and
  cuts the history to 10 entries. After one or more transfers the stored history is the
  first 10 entries of: the recorded transfers, the most recent first, followed by what was
  stored before; it has at most 10 entries.
\<close>

theorem C4_history_most_recent_ten:
  "GetTransferHistory (fst (RecordTransfer saveHistory now hm hostName d l r)) hostName
     = take 10 (\<lparr>Direction = d, LocalPath = l, RemotePath = r, Timestamp = now\<rparr>
                # GetTransferHistory hm hostName)
   \<and> GetTransferHistory (RecordTransfers saveHistory hm hostName (t # ts)) hostName
     = take 10 (rev (map entry_of (t # ts)) @ GetTransferHistory hm hostName)
   \<and> length (GetTransferHistory (RecordTransfers saveHistory hm hostName (t # ts)) hostName) \<le> 10"
proof -
  have one: "GetTransferHistory (fst (RecordTransfer saveHistory now hm hostName d l r)) hostName
     = take 10 (\<lparr>Direction = d, LocalPath = l, RemotePath = r, Timestamp = now\<rparr>
                # GetTransferHistory hm hostName)"
    by (cases "history hm hostName")
       (simp_all add: RecordTransfer_def GetTransferHistory_def Let_def)
  have many: "GetTransferHistory (RecordTransfers saveHistory hm hostName (t # ts)) hostName
     = take 10 (rev (map entry_of (t # ts)) @ GetTransferHistory hm hostName)"
    by (rule GetTransferHistory_RecordTransfers)
  have "length (GetTransferHistory (RecordTransfers saveHistory hm hostName (t # ts)) hostName) \<le> 10"
    unfolding many by simp
  with one many show ?thesis by blast
qed

text \<open>
  The scenario of the specification: after the eleven transfers the history of \<open>myhost\<close>
  holds the ten most recent ones (times 11 down to 2), the most recent first.
\<close>

theorem C4_eleven_transfers:
  "GetTransferHistory (RecordTransfers (\<lambda>hm. None) empty_manager ''myhost'' eleven_transfers) ''myhost''
   = map (entry_of \<circ> example_call) [11, 10, 9, 8, 7, 6, 5, 4, 3, 2]"
proof -
  have "GetTransferHistory (RecordTransfers (\<lambda>hm. None) empty_manager ''myhost''
          (example_call 1 # map example_call [2, 3, 4, 5, 6, 7, 8, 9, 10, 11])) ''myhost''
        = take 10 (rev (map entry_of (example_call 1 # map example_call [2, 3, 4, 5, 6, 7, 8, 9, 10, 11]))
                   @ GetTransferHistory empty_manager ''myhost'')"
    using C4_history_most_recent_ten
      [of "\<lambda>hm. None" 0 empty_manager "''myhost''" "[]" "[]" "[]" "example_call 1"
          "map example_call [2, 3, 4, 5, 6, 7, 8, 9, 10, 11]"]
    by blast
  then show ?thesis
    by (simp add: eleven_transfers_def GetTransferHistory_def empty_manager_def)
qed

section \<open>The remote session: properties\<close>

lemma QuickSearch_issues:
  "QuickSearch c p d n =
     (case NewSession c 0 of
        Some e \<Rightarrow> Inl (Failed e)
      | None \<Rightarrow>
          (case Output c 0
                  (QuickSearch_cmd_head (fst (expand_home c d))
                   @ filter (\<lambda>x. x \<notin> set shell_metacharacters) p
                   @ QuickSearch_cmd_tail (if n \<le> 0 then 30 else n)) of
             (out, None) \<Rightarrow> Inr (QuickSearch_lines (Split out (CHR 0x0A)))
           | (out, Some e) \<Rightarrow>
               (case NewSession c (snd (expand_home c d)) of
                  Some e2 \<Rightarrow> Inl NilDereference
                | None \<Rightarrow>
                    (case Output c (snd (expand_home c d))
                            (QuickSearch_cmd2_head (fst (expand_home c d))
                             @ filter (\<lambda>x. x \<notin> set shell_metacharacters) p
                             @ QuickSearch_cmd2_tail (if n \<le> 0 then 30 else n)) of
                       (out2, Some e2) \<Rightarrow> Inr []
                     | (out2, None) \<Rightarrow> Inr (QuickSearch_lines (Split out2 (CHR 0x0A)))))))"
proof -
  obtain d' k where e: "expand_home c d = (d', k)"
    by (cases "expand_home c d")
  show ?thesis
    unfolding QuickSearch_def
    by (cases "NewSession c 0")
       (simp_all add: e QuickSearch_sanitize_filter QuickSearch_cmd_def QuickSearch_cmd2_def
          Let_def split: prod.splits option.splits)
qed

lemma expand_home_cong:
  "NewSession c' = NewSession c \<Longrightarrow> Output c' 1 ''echo $HOME'' = Output c 1 ''echo $HOME''
   \<Longrightarrow> expand_home c' d = expand_home c d"
  by (simp only: expand_home_def)

lemma QuickSearch_reads:
  assumes ns: "NewSession c' = NewSession c"
    and home: "Output c' 1 ''echo $HOME'' = Output c 1 ''echo $HOME''"
    and c1: "\<And>k d'. Output c' k (QuickSearch_cmd_head d'
                 @ filter (\<lambda>x. x \<notin> set shell_metacharacters) p
                 @ QuickSearch_cmd_tail (if n \<le> 0 then 30 else n))
               = Output c k (QuickSearch_cmd_head d'
                 @ filter (\<lambda>x. x \<notin> set shell_metacharacters) p
                 @ QuickSearch_cmd_tail (if n \<le> 0 then 30 else n))"
    and c2: "\<And>k d'. Output c' k (QuickSearch_cmd2_head d'
                 @ filter (\<lambda>x. x \<notin> set shell_metacharacters) p
                 @ QuickSearch_cmd2_tail (if n \<le> 0 then 30 else n))
               = Output c k (QuickSearch_cmd2_head d'
                 @ filter (\<lambda>x. x \<notin> set shell_metacharacters) p
                 @ QuickSearch_cmd2_tail (if n \<le> 0 then 30 else n))"
  shows "QuickSearch c' p d n = QuickSearch c p d n"
  by (simp only: QuickSearch_issues[of c'] QuickSearch_issues[of c] c1 c2
      expand_home_cong[OF ns home] ns)

text \<open>
  Claim C3. \<open>QuickSearch\<close> removes every occurrence of the seven characters from the
  pattern and removes nothing else, so none of the seven is left in what remains. The
  commands it gives to the remote shell are exactly these: on the first session its first
  command line with that cleaned pattern at the place of the pattern, and, when that
  command fails, on the next session its second command line with the same cleaned
  pattern; the result of \<open>QuickSearch\<close> is read off the answers to these two commands. So
  the remote shell is never asked to run a search command whose pattern holds one of the
  seven characters: two clients that open the same sessions, give the same home directory
  and answer the commands with the cleaned pattern alike give the same result, whatever
  they would answer to any other command.
\<close>

theorem C3_pattern_sanitized:
  "QuickSearch_sanitize p = filter (\<lambda>x. x \<notin> set shell_metacharacters) p
   \<and> set (filter (\<lambda>x. x \<notin> set shell_metacharacters) p) \<inter> set shell_metacharacters = {}
   \<and> QuickSearch c p d n =
       (case NewSession c 0 of
          Some e \<Rightarrow> Inl (Failed e)
        | None \<Rightarrow>
            (case Output c 0
                    (QuickSearch_cmd_head (fst (expand_home c d))
                     @ filter (\<lambda>x. x \<notin> set shell_metacharacters) p
                     @ QuickSearch_cmd_tail (if n \<le> 0 then 30 else n)) of
               (out, None) \<Rightarrow> Inr (QuickSearch_lines (Split out (CHR 0x0A)))
             | (out, Some e) \<Rightarrow>
                 (case NewSession c (snd (expand_home c d)) of
                    Some e2 \<Rightarrow> Inl NilDereference
                  | None \<Rightarrow>
                      (case Output c (snd (expand_home c d))
                              (QuickSearch_cmd2_head (fst (expand_home c d))
                               @ filter (\<lambda>x. x \<notin> set shell_metacharacters) p
                               @ QuickSearch_cmd2_tail (if n \<le> 0 then 30 else n)) of
                         (out2, Some e2) \<Rightarrow> Inr []
                       | (out2, None) \<Rightarrow> Inr (QuickSearch_lines (Split out2 (CHR 0x0A)))))))
   \<and> (NewSession c' = NewSession c
        \<and> Output c' 1 ''echo $HOME'' = Output c 1 ''echo $HOME''
        \<and> (\<forall>k d'. Output c' k (QuickSearch_cmd_head d'
                       @ filter (\<lambda>x. x \<notin> set shell_metacharacters) p
                       @ QuickSearch_cmd_tail (if n \<le> 0 then 30 else n))
                     = Output c k (QuickSearch_cmd_head d'
                       @ filter (\<lambda>x. x \<notin> set shell_metacharacters) p
                       @ QuickSearch_cmd_tail (if n \<le> 0 then 30 else n)))
        \<and> (\<forall>k d'. Output c' k (QuickSearch_cmd2_head d'
                       @ filter (\<lambda>x. x \<notin> set shell_metacharacters) p
                       @ QuickSearch_cmd2_tail (if n \<le> 0 then 30 else n))
                     = Output c k (QuickSearch_cmd2_head d'
                       @ filter (\<lambda>x. x \<notin> set shell_metacharacters) p
                       @ QuickSearch_cmd2_tail (if n \<le> 0 then 30 else n)))
      \<longrightarrow> QuickSearch c' p d n = QuickSearch c p d n)"
proof -
  have f: "QuickSearch_sanitize p = filter (\<lambda>x. x \<notin> set shell_metacharacters) p"
    by (rule QuickSearch_sanitize_filter)
  have s: "set (filter (\<lambda>x. x \<notin> set shell_metacharacters) p) \<inter> set shell_metacharacters = {}"
    by auto
  note i = QuickSearch_issues[of c p d n]
  have r: "NewSession c' = NewSession c
        \<and> Output c' 1 ''echo $HOME'' = Output c 1 ''echo $HOME''
        \<and> (\<forall>k d'. Output c' k (QuickSearch_cmd_head d'
                       @ filter (\<lambda>x. x \<notin> set shell_metacharacters) p
                       @ QuickSearch_cmd_tail (if n \<le> 0 then 30 else n))
                     = Output c k (QuickSearch_cmd_head d'
                       @ filter (\<lambda>x. x \<notin> set shell_metacharacters) p
                       @ QuickSearch_cmd_tail (if n \<le> 0 then 30 else n)))
        \<and> (\<forall>k d'. Output c' k (QuickSearch_cmd2_head d'
                       @ filter (\<lambda>x. x \<notin> set shell_metacharacters) p
                       @ QuickSearch_cmd2_tail (if n \<le> 0 then 30 else n))
                     = Output c k (QuickSearch_cmd2_head d'
                       @ filter (\<lambda>x. x \<notin> set shell_metacharacters) p
                       @ QuickSearch_cmd2_tail (if n \<le> 0 then 30 else n)))
      \<longrightarrow> QuickSearch c' p d n = QuickSearch c p d n"
    using QuickSearch_reads[of c' c p n d] by blast
  from f s i r show ?thesis by (intro conjI)
qed

text \<open>
  The pattern with all seven characters: the search finds what the command with the
  cleaned pattern finds, on the client that answers only that command, and the same on
  the client that would also answer the command with the pattern as typed.
\<close>

theorem C3_pattern_sanitized_example:
  "QuickSearch_sanitize dirty_pattern = ''a(id)bc''
   \<and> NewSession noisy_client = NewSession answering_client
   \<and> Output noisy_client 1 ''echo $HOME'' = Output answering_client 1 ''echo $HOME''
   \<and> Output noisy_client 0 (QuickSearch_cmd_head ''/srv'' @ dirty_pattern @ QuickSearch_cmd_tail 30)
       \<noteq> Output answering_client 0
           (QuickSearch_cmd_head ''/srv'' @ dirty_pattern @ QuickSearch_cmd_tail 30)
   \<and> QuickSearch noisy_client dirty_pattern ''/srv'' 30
       = QuickSearch answering_client dirty_pattern ''/srv'' 30
   \<and> QuickSearch answering_client dirty_pattern ''/srv'' 30
       = Inr [entry ''a(id)bc'' ''/srv/a(id)bc'' False]"
proof -
  have cl: "filter (\<lambda>x. x \<notin> set shell_metacharacters) dirty_pattern = ''a(id)bc''"
    by (simp add: dirty_pattern_def shell_metacharacters_def)
  have ns: "NewSession noisy_client = NewSession answering_client"
    by (simp add: noisy_client_def answering_client_def)
  have home: "Output noisy_client 1 ''echo $HOME'' = Output answering_client 1 ''echo $HOME''"
    by (simp add: noisy_client_def answering_client_def QuickSearch_cmd_head_def)
  have ne1: "QuickSearch_cmd_head d' @ ''a(id)bc'' @ QuickSearch_cmd_tail 30
             \<noteq> QuickSearch_cmd_head ''/srv'' @ dirty_pattern @ QuickSearch_cmd_tail 30" for d'
  proof
    assume "QuickSearch_cmd_head d' @ ''a(id)bc'' @ QuickSearch_cmd_tail 30
            = QuickSearch_cmd_head ''/srv'' @ dirty_pattern @ QuickSearch_cmd_tail 30"
    then have "QuickSearch_cmd_head d' @ ''a(id)bc'' = QuickSearch_cmd_head ''/srv'' @ dirty_pattern"
      by (simp only: append_assoc[symmetric] append_same_eq)
    then have "last (QuickSearch_cmd_head d' @ ''a(id)bc'')
               = last (QuickSearch_cmd_head ''/srv'' @ dirty_pattern)"
      by simp
    then show False by (simp add: dirty_pattern_def)
  qed
  have ne2: "QuickSearch_cmd2_head d' @ ''a(id)bc'' @ QuickSearch_cmd2_tail 30
             \<noteq> QuickSearch_cmd_head ''/srv'' @ dirty_pattern @ QuickSearch_cmd_tail 30" for d'
    by (simp add: QuickSearch_cmd2_head_def QuickSearch_cmd_head_def)
  have c1: "\<forall>k d'. Output noisy_client k (QuickSearch_cmd_head d'
                 @ filter (\<lambda>x. x \<notin> set shell_metacharacters) dirty_pattern
                 @ QuickSearch_cmd_tail (if (30::int) \<le> 0 then 30 else 30))
               = Output answering_client k (QuickSearch_cmd_head d'
                 @ filter (\<lambda>x. x \<notin> set shell_metacharacters) dirty_pattern
                 @ QuickSearch_cmd_tail (if (30::int) \<le> 0 then 30 else 30))"
    using ne1 by (simp add: cl noisy_client_def answering_client_def)
  have c2: "\<forall>k d'. Output noisy_client k (QuickSearch_cmd2_head d'
                 @ filter (\<lambda>x. x \<notin> set shell_metacharacters) dirty_pattern
                 @ QuickSearch_cmd2_tail (if (30::int) \<le> 0 then 30 else 30))
               = Output answering_client k (QuickSearch_cmd2_head d'
                 @ filter (\<lambda>x. x \<notin> set shell_metacharacters) dirty_pattern
                 @ QuickSearch_cmd2_tail (if (30::int) \<le> 0 then 30 else 30))"
    using ne2 by (simp add: cl noisy_client_def answering_client_def
        QuickSearch_cmd2_head_def QuickSearch_cmd_head_def)
  note inst = C3_pattern_sanitized
    [where p = dirty_pattern and c = answering_client and c' = noisy_client
       and d = "''/srv''" and n = 30]
  from inst cl have a: "QuickSearch_sanitize dirty_pattern = ''a(id)bc''"
    by simp
  from inst ns home c1 c2
  have b: "QuickSearch noisy_client dirty_pattern ''/srv'' 30
           = QuickSearch answering_client dirty_pattern ''/srv'' 30"
    by blast
  have d: "Output noisy_client 0 (QuickSearch_cmd_head ''/srv'' @ dirty_pattern @ QuickSearch_cmd_tail 30)
       \<noteq> Output answering_client 0
           (QuickSearch_cmd_head ''/srv'' @ dirty_pattern @ QuickSearch_cmd_tail 30)"
    using ne1[of "''/srv''"] by (simp add: noisy_client_def answering_client_def)
  have e: "QuickSearch answering_client dirty_pattern ''/srv'' 30
       = Inr [entry ''a(id)bc'' ''/srv/a(id)bc'' False]"
    by code_simp
  from a ns home d b e show ?thesis by (intro conjI)
qed

section \<open>Sorting: properties\<close>

lemma insert_by_insort_key:
  "(\<And>y. y \<in> set ys \<Longrightarrow> lt y x \<longleftrightarrow> f y < f x) \<Longrightarrow> insert_by lt x ys = insort_key f x ys"
  by (induction ys) (auto simp: not_less)

lemma foldr_insert_by_sort_key:
  "(\<And>a b. a \<in> set xs \<Longrightarrow> b \<in> set xs \<Longrightarrow> lt a b \<longleftrightarrow> f a < f b) \<Longrightarrow>
   foldr (insert_by lt) xs [] = sort_key f xs"
proof (induction xs)
  case Nil
  show ?case by simp
next
  case (Cons x xs)
  have IH: "foldr (insert_by lt) xs [] = sort_key f xs"
    by (rule Cons.IH) (simp_all add: Cons.prems)
  have "insert_by lt x (sort_key f xs) = insort_key f x (sort_key f xs)"
    by (rule insert_by_insort_key) (simp add: Cons.prems)
  with IH show ?case by (simp add: sort_key_def)
qed

section \<open>Directory listings: properties\<close>

lemma ListDirectory_lines_names:
  "f \<in> set (ListDirectory_lines c path k ls) \<Longrightarrow> Name f \<noteq> ''..''"
proof (induction ls arbitrary: k)
  case Nil
  then show ?case by simp
next
  case (Cons l ls)
  let ?name = "Join (drop 8 (Fields (TrimSpace l))) '' ''"
  show ?case
  proof (cases "TrimSpace l = [] \<or> length (Fields (TrimSpace l)) < 9
                \<or> ?name = ''.'' \<or> ?name = ''..''")
    case True
    then have "ListDirectory_lines c path k (l # ls) = ListDirectory_lines c path k ls"
      by (auto simp: Let_def)
    with Cons.prems have "f \<in> set (ListDirectory_lines c path k ls)" by simp
    then show ?thesis by (rule Cons.IH)
  next
    case False
    then obtain k' x where
      eq: "ListDirectory_lines c path k (l # ls) = x # ListDirectory_lines c path k' ls"
      and x: "Name x = ?name"
      by (simp add: Let_def)
    from Cons.prems have "f = x \<or> f \<in> set (ListDirectory_lines c path k' ls)"
      unfolding eq by simp
    then show ?thesis
    proof
      assume "f = x"
      with x False show ?thesis by simp
    next
      assume "f \<in> set (ListDirectory_lines c path k' ls)"
      then show ?thesis by (rule Cons.IH)
    qed
  qed
qed

lemma ListDirectory_files_Inr:
  assumes "ListDirectory_files c path0 = Inr (path, fs)"
  shows "\<exists>L. fs = (if path \<noteq> ''/'' then [parent_entry path] else []) @ L
             \<and> (\<forall>f\<in>set L. Name f \<noteq> ''..'')"
proof -
  obtain p k where e: "expand_home c path0 = (p, k)" by (cases "expand_home c path0")
  obtain out er where o: "Output c 0 (ListDirectory_cmd p) = (out, er)"
    by (cases "Output c 0 (ListDirectory_cmd p)")
  from assms e o have "path = p"
    and "fs = (if p \<noteq> ''/'' then [parent_entry p] else [])
              @ ListDirectory_lines c p k (Split out (CHR 0x0A))"
    by (auto simp: ListDirectory_files_def parent_entry_def split: option.splits)
  then show ?thesis using ListDirectory_lines_names by blast
qed

lemma ListDirectory_less_key:
  "Name a \<noteq> ''..'' \<Longrightarrow> Name b \<noteq> ''..'' \<Longrightarrow>
   ListDirectory_less a b \<longleftrightarrow> listing_key a < listing_key b"
  by (auto simp: ListDirectory_less_def listing_key_def lower_name_def)

lemma insert_by_front: "(\<And>y. y \<in> set ys \<Longrightarrow> \<not> lt y x) \<Longrightarrow> insert_by lt x ys = x # ys"
  by (cases ys) auto

lemma Slice_no_parent:
  assumes "\<forall>f\<in>set L. Name f \<noteq> ''..''"
  shows "Slice ListDirectory_less L = sort_key listing_key L"
  unfolding Slice_def
  by (rule foldr_insert_by_sort_key) (use assms ListDirectory_less_key in blast)

lemma Slice_result_no_parent:
  assumes "\<forall>f\<in>set L. Name f \<noteq> ''..''"
  shows "Slice_result ListDirectory_less L (Slice ListDirectory_less L)"
proof -
  have "sorted_wrt (\<lambda>a b. listing_key a \<le> listing_key b) (sort_key listing_key L)"
    using sorted_sort_key[of listing_key L] by (simp add: sorted_map)
  then have "sorted_wrt (\<lambda>a b. \<not> ListDirectory_less b a) (sort_key listing_key L)"
    by (rule sorted_wrt_mono_rel[rotated]) (use assms ListDirectory_less_key in \<open>auto simp: not_less\<close>)
  then show ?thesis by (simp add: Slice_result_def Slice_no_parent[OF assms])
qed

lemma Slice_result_parent:
  assumes "\<forall>f\<in>set L. Name f \<noteq> ''..''" and "Name p = ''..''"
  shows "Slice_result ListDirectory_less (p # L) (Slice ListDirectory_less (p # L))"
proof -
  let ?S = "Slice ListDirectory_less L"
  from Slice_result_no_parent[OF assms(1)]
  have m: "mset ?S = mset L" and s: "sorted_wrt (\<lambda>a b. \<not> ListDirectory_less b a) ?S"
    by (simp_all add: Slice_result_def)
  from m have set: "set ?S = set L" by (rule mset_eq_setD)
  have np: "\<And>y. y \<in> set ?S \<Longrightarrow> \<not> ListDirectory_less y p"
    using assms set by (auto simp: ListDirectory_less_def)
  have "Slice ListDirectory_less (p # L) = insert_by ListDirectory_less p ?S"
    by (simp add: Slice_def)
  also have "\<dots> = p # ?S" using np by (rule insert_by_front)
  finally show ?thesis using m s np by (simp add: Slice_result_def)
qed

lemma ListDirectory_Slice_result:
  assumes "ListDirectory_files c path0 = Inr (path, fs)"
  shows "Slice_result ListDirectory_less fs (Slice ListDirectory_less fs)"
proof -
  from ListDirectory_files_Inr[OF assms] obtain L where
    fs: "fs = (if path \<noteq> ''/'' then [parent_entry path] else []) @ L"
    and L: "\<forall>f\<in>set L. Name f \<noteq> ''..''" by blast
  show ?thesis
  proof (cases "path = ''/''")
    case True
    with fs L show ?thesis by (simp add: Slice_result_no_parent)
  next
    case False
    with fs have "fs = parent_entry path # L" by simp
    moreover have "Name (parent_entry path) = ''..''" by (simp add: parent_entry_def)
    ultimately show ?thesis using L by (simp add: Slice_result_parent)
  qed
qed

lemma sorted_parent_first:
  "sorted_wrt (\<lambda>a b. \<not> ListDirectory_less b a) (a # rest) \<Longrightarrow> \<forall>f\<in>set rest. Name f \<noteq> ''..''"
  by (auto simp: ListDirectory_less_def)

lemma partition_sorted:
  "sorted_wrt (\<lambda>a b. P b \<longrightarrow> P a) zs \<Longrightarrow> zs = filter P zs @ filter (\<lambda>x. \<not> P x) zs"
proof (induction zs)
  case Nil
  show ?case by simp
next
  case (Cons a zs)
  show ?case
  proof (cases "P a")
    case True
    with Cons show ?thesis by simp
  next
    case False
    with Cons.prems have "\<forall>b\<in>set zs. \<not> P b" by auto
    then have "filter P zs = []" and "filter (\<lambda>x. \<not> P x) zs = zs" by (simp_all add: filter_empty_conv)
    with False show ?thesis by simp
  qed
qed

lemma sorted_body:
  assumes nd: "\<forall>f\<in>set zs. Name f \<noteq> ''..''"
    and s: "sorted_wrt (\<lambda>a b. \<not> ListDirectory_less b a) zs"
  shows "zs = filter IsDir zs @ filter (\<lambda>f. \<not> IsDir f) zs
         \<and> sorted (map lower_name (filter IsDir zs))
         \<and> sorted (map lower_name (filter (\<lambda>f. \<not> IsDir f) zs))"
proof -
  have "sorted_wrt (\<lambda>a b. IsDir b \<longrightarrow> IsDir a) zs"
    using s by (rule sorted_wrt_mono_rel[rotated])
      (use nd in \<open>auto simp: ListDirectory_less_def split: if_splits\<close>)
  then have p: "zs = filter IsDir zs @ filter (\<lambda>f. \<not> IsDir f) zs" by (rule partition_sorted)
  have "sorted_wrt (\<lambda>a b. \<not> ListDirectory_less b a) (filter IsDir zs)"
    using s by (rule sorted_wrt_filter)
  then have d: "sorted_wrt (\<lambda>a b. lower_name a \<le> lower_name b) (filter IsDir zs)"
    by (rule sorted_wrt_mono_rel[rotated])
       (use nd in \<open>auto simp: ListDirectory_less_def lower_name_def not_less split: if_splits\<close>)
  have "sorted_wrt (\<lambda>a b. \<not> ListDirectory_less b a) (filter (\<lambda>f. \<not> IsDir f) zs)"
    using s by (rule sorted_wrt_filter)
  then have f: "sorted_wrt (\<lambda>a b. lower_name a \<le> lower_name b) (filter (\<lambda>f. \<not> IsDir f) zs)"
    by (rule sorted_wrt_mono_rel[rotated])
       (use nd in \<open>auto simp: ListDirectory_less_def lower_name_def not_less split: if_splits\<close>)
  from p d f show ?thesis by (simp add: sorted_map)
qed

lemma listing_order_of_sorted:
  assumes files: "ListDirectory_files c path0 = Inr (path, fs)"
    and sorted: "Slice_result ListDirectory_less fs ys"
  shows "ys = (if path \<noteq> ''/'' then [parent_entry path] else [])
              @ filter IsDir (body ys) @ filter (\<lambda>f. \<not> IsDir f) (body ys)
         \<and> sorted (map lower_name (filter IsDir (body ys)))
         \<and> sorted (map lower_name (filter (\<lambda>f. \<not> IsDir f) (body ys)))
         \<and> ((\<exists>f\<in>set ys. Name f = ''..'') \<longleftrightarrow> path \<noteq> ''/'')
         \<and> mset ys = mset fs"
proof -
  from ListDirectory_files_Inr[OF files] obtain L where
    fs: "fs = (if path \<noteq> ''/'' then [parent_entry path] else []) @ L"
    and L: "\<forall>f\<in>set L. Name f \<noteq> ''..''" by blast
  from sorted have m: "mset ys = mset fs"
    and s: "sorted_wrt (\<lambda>a b. \<not> ListDirectory_less b a) ys"
    by (simp_all add: Slice_result_def)
  show ?thesis
  proof (cases "path = ''/''")
    case True
    with fs m have "mset ys = mset L" by simp
    then have "set ys = set L" by (rule mset_eq_setD)
    with L have nd: "\<forall>f\<in>set ys. Name f \<noteq> ''..''" by simp
    then have b: "body ys = ys" by (simp add: body_def)
    from sorted_body[OF nd s] b True nd m show ?thesis by auto
  next
    case False
    let ?p = "parent_entry path"
    have np: "Name ?p = ''..''" by (simp add: parent_entry_def)
    from False fs m have my: "mset ys = add_mset ?p (mset L)" by simp
    then have "?p \<in> set ys" by (metis mset_eq_setD set_mset_mset union_single_eq_member)
    then obtain a rest where ys: "ys = a # rest" by (cases ys) auto
    from s ys have nd: "\<forall>f\<in>set rest. Name f \<noteq> ''..''" by (simp add: sorted_parent_first)
    from \<open>?p \<in> set ys\<close> ys nd np have a: "a = ?p" by auto
    from s ys have sr: "sorted_wrt (\<lambda>a b. \<not> ListDirectory_less b a) rest" by simp
    from nd np a ys have b: "body ys = rest" by (simp add: body_def)
    from sorted_body[OF nd sr] b ys a np False m show ?thesis by auto
  qed
qed


lemma Clean_slash: "Clean ''/'' = ''/''"
  by code_simp

text \<open>
  Claim C5, as amended. \<open>ListDirectory\<close> sorts its entries with \<open>sort.Slice\<close>, and the
  list it returns is one that the sort can leave (a permutation of the entries with no
  later entry less than an earlier one). Every such list is: the parent entry \<open>..\<close> when
  the listed path is not the string \<open>/\<close> and nothing when it is, then the directories,
  then the files; the directories are in the order of their lower-case names and so are
  the files. An entry named \<open>..\<close> is in the list exactly when the listed path is not the
  string \<open>/\<close>; so it is there whenever the listed path is not the filesystem root, and it
  is left out at the root only when the root is written \<open>/\<close>. The listed path is the one
  after the expansion of \<open>~\<close>.
\<close>

theorem C5_listing_order:
  assumes files: "ListDirectory_files c path0 = Inr (path, fs)"
    and sorted: "Slice_result ListDirectory_less fs ys"
  shows "ys = (if path \<noteq> ''/'' then [parent_entry path] else [])
              @ filter IsDir (body ys) @ filter (\<lambda>f. \<not> IsDir f) (body ys)
         \<and> sorted (map lower_name (filter IsDir (body ys)))
         \<and> sorted (map lower_name (filter (\<lambda>f. \<not> IsDir f) (body ys)))
         \<and> ((\<exists>f\<in>set ys. Name f = ''..'') \<longleftrightarrow> path \<noteq> ''/'')
         \<and> mset ys = mset fs
         \<and> (\<not> filesystem_root path \<longrightarrow> (\<exists>f\<in>set ys. Name f = ''..''))
         \<and> ListDirectory c path0 = Inr (Slice ListDirectory_less fs)
         \<and> Slice_result ListDirectory_less fs (Slice ListDirectory_less fs)"
proof -
  note o = listing_order_of_sorted[OF files sorted]
  then have iff: "(\<exists>f\<in>set ys. Name f = ''..'') \<longleftrightarrow> path \<noteq> ''/''"
    by blast
  have "path \<noteq> ''/''" if "\<not> filesystem_root path"
    using that Clean_slash by (auto simp: filesystem_root_def)
  with iff have r: "\<not> filesystem_root path \<longrightarrow> (\<exists>f\<in>set ys. Name f = ''..'')"
    by blast
  have l: "ListDirectory c path0 = Inr (Slice ListDirectory_less fs)"
    by (simp add: ListDirectory_def files)
  have sr: "Slice_result ListDirectory_less fs (Slice ListDirectory_less fs)"
    using files by (rule ListDirectory_Slice_result)
  from o r l sr show ?thesis by blast
qed

text \<open>The listing of \<open>/srv\<close> on the example client.\<close>

theorem C5_listing_order_example:
  "ListDirectory_files listing_client ''/srv''
     = Inr (''/srv'',
            [parent_entry ''/srv'', listed ''b.txt'' ''/srv/b.txt'' False,
             listed ''Zeta'' ''/srv/Zeta'' True, listed ''alpha'' ''/srv/alpha'' True,
             listed ''App.log'' ''/srv/App.log'' False])
   \<and> ListDirectory listing_client ''/srv''
     = Inr [parent_entry ''/srv'', listed ''alpha'' ''/srv/alpha'' True,
            listed ''Zeta'' ''/srv/Zeta'' True, listed ''App.log'' ''/srv/App.log'' False,
            listed ''b.txt'' ''/srv/b.txt'' False]
   \<and> body [parent_entry ''/srv'', listed ''alpha'' ''/srv/alpha'' True,
            listed ''Zeta'' ''/srv/Zeta'' True, listed ''App.log'' ''/srv/App.log'' False,
            listed ''b.txt'' ''/srv/b.txt'' False]
     = [listed ''alpha'' ''/srv/alpha'' True, listed ''Zeta'' ''/srv/Zeta'' True,
        listed ''App.log'' ''/srv/App.log'' False, listed ''b.txt'' ''/srv/b.txt'' False]
   \<and> sorted (map lower_name [listed ''alpha'' ''/srv/alpha'' True, listed ''Zeta'' ''/srv/Zeta'' True])
   \<and> sorted (map lower_name [listed ''App.log'' ''/srv/App.log'' False,
                               listed ''b.txt'' ''/srv/b.txt'' False])
   \<and> \<not> filesystem_root ''/srv''
   \<and> Name (parent_entry ''/srv'') = ''..''"
proof -
  have nr: "\<not> filesystem_root ''/srv''"
    by code_simp
  have pn: "Name (parent_entry ''/srv'') = ''..''"
    by (simp add: parent_entry_def)
  let ?U = "[parent_entry ''/srv'', listed ''b.txt'' ''/srv/b.txt'' False,
             listed ''Zeta'' ''/srv/Zeta'' True, listed ''alpha'' ''/srv/alpha'' True,
             listed ''App.log'' ''/srv/App.log'' False]"
  let ?S = "[parent_entry ''/srv'', listed ''alpha'' ''/srv/alpha'' True,
            listed ''Zeta'' ''/srv/Zeta'' True, listed ''App.log'' ''/srv/App.log'' False,
            listed ''b.txt'' ''/srv/b.txt'' False]"
  have f: "ListDirectory_files listing_client ''/srv'' = Inr (''/srv'', ?U)"
    by code_simp
  have l: "ListDirectory listing_client ''/srv'' = Inr ?S"
    by code_simp
  have "Slice ListDirectory_less ?U = ?S"
    by code_simp
  with ListDirectory_Slice_result[OF f] have r: "Slice_result ListDirectory_less ?U ?S"
    by simp
  have b: "body ?S = [listed ''alpha'' ''/srv/alpha'' True, listed ''Zeta'' ''/srv/Zeta'' True,
        listed ''App.log'' ''/srv/App.log'' False, listed ''b.txt'' ''/srv/b.txt'' False]"
    by code_simp
  have fd: "filter IsDir [listed ''alpha'' ''/srv/alpha'' True, listed ''Zeta'' ''/srv/Zeta'' True,
        listed ''App.log'' ''/srv/App.log'' False, listed ''b.txt'' ''/srv/b.txt'' False]
      = [listed ''alpha'' ''/srv/alpha'' True, listed ''Zeta'' ''/srv/Zeta'' True]"
    by (simp add: listed_def)
  have ff: "filter (\<lambda>f. \<not> IsDir f) [listed ''alpha'' ''/srv/alpha'' True, listed ''Zeta'' ''/srv/Zeta'' True,
        listed ''App.log'' ''/srv/App.log'' False, listed ''b.txt'' ''/srv/b.txt'' False]
      = [listed ''App.log'' ''/srv/App.log'' False, listed ''b.txt'' ''/srv/b.txt'' False]"
    by (simp add: listed_def)
  from C5_listing_order[OF f r]
  have "sorted (map lower_name (filter IsDir (body ?S)))
        \<and> sorted (map lower_name (filter (\<lambda>f. \<not> IsDir f) (body ?S)))"
    by blast
  then have srt: "sorted (map lower_name [listed ''alpha'' ''/srv/alpha'' True,
                                          listed ''Zeta'' ''/srv/Zeta'' True])
        \<and> sorted (map lower_name [listed ''App.log'' ''/srv/App.log'' False,
                                    listed ''b.txt'' ''/srv/b.txt'' False])"
    by (simp only: b fd ff)
  from f l b srt nr pn show ?thesis
    by (intro conjI) blast+
qed

text \<open>
  The claim as written fails: \<open>//\<close> is the filesystem root, and its listing has the
  parent entry, which leads to \<open>/\<close> again.
\<close>

theorem C5_parent_entry_at_root:
  "filesystem_root ''//''
   \<and> ListDirectory root_client ''//''
     = Inr [parent_entry ''//'', listed ''etc'' ''/etc'' True]
   \<and> Name (parent_entry ''//'') = ''..''
   \<and> Path (parent_entry ''//'') = ''/''"
  by code_simp

section \<open>Search results: properties\<close>

lemma prefix_Contains: "prefix q n \<Longrightarrow> Contains n q"
  by (cases n) auto

lemma sortSearchResults_less_rank:
  "sortSearchResults_less q a b \<longleftrightarrow> rank q a < rank q b"
  using prefix_Contains[of q "ToLower (Name a)"] prefix_Contains[of q "ToLower (Name b)"]
  by (auto simp: sortSearchResults_less_def rank_def match_class_def Let_def HasPrefix_def)

lemma SliceStable_rank:
  "SliceStable (sortSearchResults_less q) xs = sort_key (rank q) xs"
  unfolding SliceStable_def
  by (rule foldr_insert_by_sort_key) (rule sortSearchResults_less_rank)

lemma le_rank:
  "rank q a \<le> rank q b \<longleftrightarrow>
     match_class q a < match_class q b
     \<or> (match_class q a = match_class q b \<and> length (Path a) \<le> length (Path b))"
  by (auto simp: rank_def)

text \<open>
  Claim C7. For a query of at least 3 bytes \<open>sortSearchResults\<close> changes nothing but the
  order of the search results, and in the new order every result stands before every
  result of a later class: results whose name is the query first, then those whose name
  only starts with it, then those whose name only contains it, then the others (which
  match in the path); within a class a result stands before every result with a longer
  path. Names and query are compared in lower case. For a shorter query
  \<open>sortSearchResults\<close> changes nothing.
\<close>

theorem C7_search_ranking:
  "(3 \<le> length (searchQuery m) \<longrightarrow>
      sortSearchResults m
        = m\<lparr>searchFiles := searchFiles (sortSearchResults m)\<rparr>
      \<and> mset (searchFiles (sortSearchResults m)) = mset (searchFiles m)
      \<and> sorted_wrt
          (\<lambda>a b. match_class (ToLower (searchQuery m)) a < match_class (ToLower (searchQuery m)) b
                 \<or> (match_class (ToLower (searchQuery m)) a = match_class (ToLower (searchQuery m)) b
                    \<and> length (Path a) \<le> length (Path b)))
          (searchFiles (sortSearchResults m)))
   \<and> (length (searchQuery m) < 3 \<longrightarrow> sortSearchResults m = m)"
proof -
  let ?q = "ToLower (searchQuery m)"
  have s: "sorted_wrt (\<lambda>a b. rank ?q a \<le> rank ?q b) (sort_key (rank ?q) (searchFiles m))"
    using sorted_sort_key[of "rank ?q" "searchFiles m"] by (simp add: sorted_map)
  show ?thesis
  proof (cases "searchFiles m = []")
    case True
    then show ?thesis by (simp add: sortSearchResults_def)
  next
    case False
    with s show ?thesis
      by (simp add: sortSearchResults_def SliceStable_rank le_rank)
  qed
qed


text \<open>The example results for the query \<open>log\<close>, ranked; with the query \<open>lo\<close> they stay as they are.\<close>

theorem C7_search_ranking_example:
  "3 \<le> length (searchQuery (example_searching\<lparr>searchFiles := example_results\<rparr>))
   \<and> searchFiles (sortSearchResults (example_searching\<lparr>searchFiles := example_results\<rparr>))
     = [entry ''LOG'' ''/home/u/a/b/LOG'' False,
        entry ''logo.png'' ''/home/u/logo.png'' False,
        entry ''catalog'' ''/home/u/catalog'' True,
        entry ''app.log'' ''/home/u/deep/app.log'' False,
        entry ''x'' ''/home/u/logs/x'' False]
   \<and> mset (searchFiles (sortSearchResults (example_searching\<lparr>searchFiles := example_results\<rparr>)))
     = mset example_results
   \<and> length (searchQuery (example_searching\<lparr>searchQuery := ''lo'', searchFiles := example_results\<rparr>)) < 3
   \<and> sortSearchResults (example_searching\<lparr>searchQuery := ''lo'', searchFiles := example_results\<rparr>)
     = example_searching\<lparr>searchQuery := ''lo'', searchFiles := example_results\<rparr>"
proof -
  have h1: "3 \<le> length (searchQuery (example_searching\<lparr>searchFiles := example_results\<rparr>))"
    by (simp add: example_searching_def)
  have h2: "length (searchQuery (example_searching\<lparr>searchQuery := ''lo'', searchFiles := example_results\<rparr>)) < 3"
    by simp
  have e: "searchFiles (sortSearchResults (example_searching\<lparr>searchFiles := example_results\<rparr>))
     = [entry ''LOG'' ''/home/u/a/b/LOG'' False,
        entry ''logo.png'' ''/home/u/logo.png'' False,
        entry ''catalog'' ''/home/u/catalog'' True,
        entry ''app.log'' ''/home/u/deep/app.log'' False,
        entry ''x'' ''/home/u/logs/x'' False]"
    by code_simp
  from h1 C7_search_ranking [of "example_searching\<lparr>searchFiles := example_results\<rparr>"]
  have m: "mset (searchFiles (sortSearchResults (example_searching\<lparr>searchFiles := example_results\<rparr>)))
     = mset example_results"
    by simp
  from h2 C7_search_ranking
    [of "example_searching\<lparr>searchQuery := ''lo'', searchFiles := example_results\<rparr>"]
  have n: "sortSearchResults (example_searching\<lparr>searchQuery := ''lo'', searchFiles := example_results\<rparr>)
     = example_searching\<lparr>searchQuery := ''lo'', searchFiles := example_results\<rparr>"
    by blast
  from h1 h2 e m n show ?thesis by blast
qed

section \<open>The remote browser: properties\<close>

lemma Update_key_searching_no_cmd: "Update_key_searching k m = Inr (m', Some c) \<Longrightarrow> False"
  by (auto simp: Update_key_searching_def split: if_splits)

lemma Update_key_search_no_runSearch:
  "Update_key_search k m = Inr (m', Some (runSearch q)) \<Longrightarrow> False"
  by (auto simp: Update_key_search_def Let_def split: if_splits sum.splits)

lemma Update_key_normal_no_runSearch:
  "Update_key_normal k m = Inr (m', Some (runSearch q)) \<Longrightarrow> False"
  by (auto simp: Update_key_normal_def Let_def split: if_splits sum.splits)

lemma Update_runSearch:
  "Update msg m = Inr (m', Some (runSearch q)) \<Longrightarrow> q = searchQuery m \<and> 3 \<le> length q"
  by (cases msg)
     (auto simp: Let_def split: if_splits option.splits
           dest: Update_key_searching_no_cmd Update_key_search_no_runSearch
                 Update_key_normal_no_runSearch)

lemma Updates_runSearch:
  "Updates msgs m = Inr (m', cs) \<Longrightarrow> runSearch q \<in> set cs \<Longrightarrow> 3 \<le> length q"
proof (induction msgs arbitrary: m m' cs)
  case Nil
  then show ?case by simp
next
  case (Cons msg msgs)
  from Cons.prems(1) obtain m1 c cs1 where
    step: "Update msg m = Inr (m1, c)" and rest: "Updates msgs m1 = Inr (m', cs1)"
    and cs: "cs = (case c of None \<Rightarrow> cs1 | Some x \<Rightarrow> x # cs1)"
    by (auto split: sum.splits prod.splits)
  show ?case
  proof (cases "runSearch q \<in> set cs1")
    case True
    with rest show ?thesis by (rule Cons.IH)
  next
    case False
    with cs Cons.prems(2) have "c = Some (runSearch q)" by (cases c) auto
    with step show ?thesis by (auto dest: Update_runSearch)
  qed
qed

lemma Updates_example_search:
  "Updates example_search example_browser =
     Inr (example_searching, [scheduleSearch ''log'', runSearch ''log''])"
  by code_simp

text \<open>
  Claim C6. \<open>Update\<close> returns the command that runs a remote search only with the current
  query, and only when that query has at least 3 bytes; so in every run of the event loop,
  from every model, each search that is issued is for a query of length at least 3.
\<close>

theorem C6_search_only_from_three_characters:
  "(Update msg m = Inr (m', Some (runSearch q)) \<longrightarrow> q = searchQuery m \<and> 3 \<le> length q)
   \<and> (Updates msgs m = Inr (m'', cs) \<and> runSearch q' \<in> set cs \<longrightarrow> 3 \<le> length q')"
  using Update_runSearch Updates_runSearch by blast

text \<open>In the example session the search is issued when the delay elapses, for the query \<open>log\<close>.\<close>

theorem C6_search_only_from_three_characters_example:
  "Update (searchDebounceMsg ''log'') example_typed
     = Inr (example_typed\<lparr>loading := True, pendingSearch := []\<rparr>, Some (runSearch ''log''))
   \<and> ''log'' = searchQuery example_typed
   \<and> Updates example_search example_browser
     = Inr (example_searching, [scheduleSearch ''log'', runSearch ''log''])
   \<and> runSearch ''log'' \<in> set [scheduleSearch ''log'', runSearch ''log'']
   \<and> 3 \<le> length ''log''"
proof -
  have step: "Update (searchDebounceMsg ''log'') example_typed
     = Inr (example_typed\<lparr>loading := True, pendingSearch := []\<rparr>, Some (runSearch ''log''))"
    by code_simp
  have run: "Updates example_search example_browser
     = Inr (example_searching, [scheduleSearch ''log'', runSearch ''log''])"
    by (rule Updates_example_search)
  have mem: "runSearch ''log'' \<in> set [scheduleSearch ''log'', runSearch ''log'']"
    by simp
  from step C6_search_only_from_three_characters
    [where msg = "searchDebounceMsg ''log''" and m = example_typed
       and m' = "example_typed\<lparr>loading := True, pendingSearch := []\<rparr>" and q = "''log''"]
  have q: "''log'' = searchQuery example_typed" by blast
  from run mem C6_search_only_from_three_characters
    [where msgs = example_search and m = example_browser and m'' = example_searching
       and cs = "[scheduleSearch ''log'', runSearch ''log'']" and q' = "''log''"]
  have "3 \<le> length ''log''" by blast
  with step run mem q show ?thesis by blast
qed

text \<open>
  Claim C1, as amended. A search completion whose query is not the current \<open>searchQuery\<close>
  leaves the whole model as it is and gives no command. A directory listing is not
  compared with the current directory: a successful one always becomes the current
  directory with its entries, the cursor at 0 and no error text. Listings are kept in
  order by the \<open>loading\<close> flag instead: while a listing is pending (\<open>loading\<close> set outside
  search mode) every key is ignored, so no other listing can be asked for.
\<close>

theorem C1_stale_search_discarded:
  "(q \<noteq> searchQuery m \<longrightarrow> Update (remoteBrowserSearchMsg fs q e) m = Inr (m, None))
   \<and> (\<exists>m'. Update (remoteBrowserLoadedMsg fs d None) m = Inr (m', None)
          \<and> currentDir m' = d \<and> files m' = fs \<and> cursor m' = 0 \<and> err m' = []
          \<and> visibleFiles m' =
              (if showHidden m then fs
               else filter (\<lambda>f. Name f = ''..'' \<or> \<not> HasPrefix (Name f) ''.'') fs))
   \<and> (loading m \<and> \<not> searchMode m \<longrightarrow> Update (KeyMsg k) m = Inr (m, None))"
  by (simp add: Let_def filterFiles_def)

text \<open>A completion for the query \<open>lo\<close> arrives when the query is \<open>log\<close>; a key arrives during the first listing.\<close>

theorem C1_stale_search_discarded_example:
  "''lo'' \<noteq> searchQuery example_searching
   \<and> Update (remoteBrowserSearchMsg [entry ''lo'' ''/home/u/lo'' False] ''lo'' None)
        example_searching = Inr (example_searching, None)
   \<and> loading example_browser \<and> \<not> searchMode example_browser
   \<and> Update (KeyMsg ''enter'') example_browser = Inr (example_browser, None)"
proof -
  have h1: "''lo'' \<noteq> searchQuery example_searching"
    by (simp add: example_searching_def)
  have h2: "loading example_browser \<and> \<not> searchMode example_browser"
    by (simp add: example_browser_def NewRemoteBrowser_def)
  from h1 h2
    C1_stale_search_discarded
      [where q = "''lo''" and m = example_searching
         and fs = "[entry ''lo'' ''/home/u/lo'' False]" and e = None]
    C1_stale_search_discarded [where m = example_browser and k = "''enter''"]
  show ?thesis by blast
qed

text \<open>
  The claim as written fails for listings: the browser is at rest in \<open>/home/u\<close>, no
  listing is pending, and a listing of \<open>/tmp\<close> arrives; it replaces the current directory
  and the entries.
\<close>

theorem C1_listing_always_applied:
  "\<not> loading example_idle \<and> currentDir example_idle = ''/home/u''
   \<and> visibleFiles example_idle = [entry ''..'' ''/home'' True]
   \<and> ''/tmp'' \<noteq> currentDir example_idle
   \<and> [entry ''..'' ''/'' True, entry ''x'' ''/tmp/x'' False] \<noteq> visibleFiles example_idle
   \<and> Update example_tmp_listing example_idle =
       Inr (example_idle
              \<lparr>currentDir := ''/tmp'',
               files := [entry ''..'' ''/'' True, entry ''x'' ''/tmp/x'' False],
               visibleFiles := [entry ''..'' ''/'' True, entry ''x'' ''/tmp/x'' False]\<rparr>, None)"
  by code_simp

text \<open>
  Claim C10 fails on the code. In the example session the cursor is on the second search
  result when the user enters it; leaving search mode does not reset the cursor, and the
  failed listing returns before the cursor is reset. The browser is then in normal mode
  with the cursor at 1 and one visible entry, and the next \<open>enter\<close> indexes
  \<open>visibleFiles\<close> out of range. (A backspace that shortens the query below 3 bytes
  also leaves the cursor where it was, on an empty result list.)
\<close>

theorem C10_cursor_out_of_range:
  "Updates example_failed_load example_browser =
     Inr (example_after_failed_load,
          [scheduleSearch ''log'', runSearch ''log'', loadDirectory ''/home/u/logs''])
   \<and> cursor example_after_failed_load = 1
   \<and> length (displayed example_after_failed_load) = 1
   \<and> Updates (example_failed_load @ [KeyMsg ''enter'']) example_browser = Inl IndexOutOfRange
   \<and> Updates (example_search @ [KeyMsg ''down'', KeyMsg ''backspace'']) example_browser =
       Inr (example_searching
              \<lparr>cursor := 1, searchQuery := ''lo'', searchFiles := [], searchTriggered := False\<rparr>,
            [scheduleSearch ''log'', runSearch ''log''])"
  by code_simp

section \<open>Failed searches\<close>

text \<open>
  Claim C9, as amended. When the session cannot be opened, \<open>QuickSearch\<close> returns that
  error. When it opens and both the first command and the fallback command fail,
  \<open>QuickSearch\<close> returns the empty list and no error, and the message the browser gets
  carries no error.
\<close>

theorem C9_failed_search_is_empty_result:
  "(NewSession c 0 = Some e \<longrightarrow> QuickSearch c p d n = Inl (Failed e))
   \<and> (NewSession c 0 = None \<and> expand_home c d = (d', k)
        \<and> snd (Output c 0 (QuickSearch_cmd d' (QuickSearch_sanitize p) (if n \<le> 0 then 30 else n)))
            \<noteq> None
        \<and> NewSession c k = None
        \<and> snd (Output c k (QuickSearch_cmd2 d' (QuickSearch_sanitize p) (if n \<le> 0 then 30 else n)))
            \<noteq> None
      \<longrightarrow> QuickSearch c p d n = Inr []
          \<and> (n = 30 \<longrightarrow> runSearch_msg (Some c) p d = Inr (remoteBrowserSearchMsg [] p None)))"
  by (auto simp: QuickSearch_def runSearch_msg_def Let_def split: prod.splits option.splits)

text \<open>The two clients of the examples: no session, and a session on which both commands fail.\<close>

theorem C9_failed_search_is_empty_result_example:
  "NewSession unreachable_client 0 = Some ''EOF''
   \<and> QuickSearch unreachable_client ''log'' ''/srv'' 30 = Inl (Failed ''EOF'')
   \<and> NewSession failing_client 0 = None
   \<and> expand_home failing_client ''/srv'' = (''/srv'', 1)
   \<and> snd (Output failing_client 0 (QuickSearch_cmd ''/srv'' (QuickSearch_sanitize ''log'') 30)) \<noteq> None
   \<and> NewSession failing_client 1 = None
   \<and> snd (Output failing_client 1 (QuickSearch_cmd2 ''/srv'' (QuickSearch_sanitize ''log'') 30)) \<noteq> None
   \<and> QuickSearch failing_client ''log'' ''/srv'' 30 = Inr []
   \<and> runSearch_msg (Some failing_client) ''log'' ''/srv'' = Inr (remoteBrowserSearchMsg [] ''log'' None)"
proof -
  have u: "NewSession unreachable_client 0 = Some ''EOF''"
    by (simp add: unreachable_client_def)
  have h: "NewSession failing_client 0 = None
     \<and> expand_home failing_client ''/srv'' = (''/srv'', 1)
     \<and> snd (Output failing_client 0
              (QuickSearch_cmd ''/srv'' (QuickSearch_sanitize ''log'') (if (30::int) \<le> 0 then 30 else 30)))
          \<noteq> None
     \<and> NewSession failing_client 1 = None
     \<and> snd (Output failing_client 1
              (QuickSearch_cmd2 ''/srv'' (QuickSearch_sanitize ''log'') (if (30::int) \<le> 0 then 30 else 30)))
          \<noteq> None"
    by (simp add: failing_client_def expand_home_def HasPrefix_def)
  from u C9_failed_search_is_empty_result
    [where c = unreachable_client and e = "''EOF''" and p = "''log''" and d = "''/srv''" and n = 30]
  have a: "QuickSearch unreachable_client ''log'' ''/srv'' 30 = Inl (Failed ''EOF'')" by blast
  from h C9_failed_search_is_empty_result
    [where c = failing_client and p = "''log''" and d = "''/srv''" and n = 30
       and d' = "''/srv''" and k = 1]
  have b: "QuickSearch failing_client ''log'' ''/srv'' 30 = Inr []
     \<and> runSearch_msg (Some failing_client) ''log'' ''/srv'' = Inr (remoteBrowserSearchMsg [] ''log'' None)"
    by blast
  from u a b h show ?thesis by simp
qed

text \<open>
  The claim as written fails: every command fails on this client, and the search returns
  an empty result with no error, which is what the browser is told; the browser then has
  no results and an empty error text.
\<close>

theorem C9_failure_not_surfaced:
  "snd (Output failing_client 0 (QuickSearch_cmd ''/srv'' ''log'' 30))
     = Some ''Process exited with status 1''
   \<and> snd (Output failing_client 1 (QuickSearch_cmd2 ''/srv'' ''log'' 30))
     = Some ''Process exited with status 1''
   \<and> QuickSearch failing_client ''log'' ''/srv'' 30 = Inr []
   \<and> runSearch_msg (Some failing_client) ''log'' ''/srv''
     = Inr (remoteBrowserSearchMsg [] ''log'' None)
   \<and> Update (remoteBrowserSearchMsg [] ''log'' None)
        (example_typed\<lparr>loading := True, pendingSearch := []\<rparr>)
     = Inr (example_typed\<lparr>loading := False, pendingSearch := [], searchTriggered := True\<rparr>, None)
   \<and> err (example_typed\<lparr>loading := False, pendingSearch := [], searchTriggered := True\<rparr>) = []"
  by code_simp

section \<open>The transfer request: properties\<close>

text \<open>
  Claim C8, as amended. The request is recursive exactly when the direction is upload and
  the local path is a directory, or the direction is download and the download type is
  folder. A download into a local path that is a directory goes to \<open>filepath.Join\<close> of that
  directory and the base name of the remote path, and \<open>filepath.Join\<close> cleans its result;
  every other transfer uses the local path as chosen.
\<close>

theorem C8_recursive_and_local_path:
  "req_Recursive (executeTransfer stat m)
     = ((qt_direction m = Upload \<and> stat (qt_localPath m) = Some True)
        \<or> (qt_direction m = Download \<and> qt_downloadType m = UploadFolder))
   \<and> req_LocalPath (executeTransfer stat m)
     = (if qt_direction m = Download \<and> stat (qt_localPath m) = Some True
        then filepath_Join [qt_localPath m, Base (qt_remotePath m)]
        else qt_localPath m)
   \<and> req_Direction (executeTransfer stat m) = qt_direction m
   \<and> req_RemotePath (executeTransfer stat m) = qt_remotePath m"
  by (cases "qt_direction m") (simp_all add: executeTransfer_def Let_def)

text \<open>The download of the specification's scenario.\<close>

theorem C8_recursive_and_local_path_example:
  "req_LocalPath (executeTransfer example_stat example_download) = ''downloads/app.log''
   \<and> \<not> req_Recursive (executeTransfer example_stat example_download)"
proof -
  have j: "filepath_Join [''./downloads/'', Base ''/var/log/app.log''] = ''downloads/app.log''"
    by code_simp
  from C8_recursive_and_local_path [of example_stat example_download] j
  show ?thesis
    by (simp add: example_stat_def example_download_def)
qed

text \<open>
  The example of the claim as written fails: the local path of the request is
  \<open>downloads/app.log\<close>, the cleaned form, not \<open>./downloads/app.log\<close>.
\<close>

theorem C8_example_path_is_cleaned:
  "example_stat (qt_localPath example_download) = Some True
   \<and> req_LocalPath (executeTransfer example_stat example_download) = ''downloads/app.log''
   \<and> req_LocalPath (executeTransfer example_stat example_download) \<noteq> ''./downloads/app.log''"
  by code_simp

end
